theory Spec2Isabelle
  imports Complex_Main "HOL-Library.Word"
begin

section \<open>Scalars and the vector library\<close>

text \<open>
  The header \<^verbatim>\<open>cadscene.hpp\<close> stores every coordinate as a C \<^verbatim>\<open>float\<close>. A float is
  modelled by the real number it denotes: the order on finite floats is the order of the
  reals, which is all that \<^verbatim>\<open>merge\<close> looks at. NaN and the two infinities have no counterpart
  in the model, and the product of a matrix with a vector is computed without rounding; the
  theorems on \<^verbatim>\<open>transformed\<close> hold for every matrix and do not depend on the values the
  product returns.

  The types \<^verbatim>\<open>nvmath::vec4f\<close> and \<^verbatim>\<open>nvmath::mat4f\<close> and the functions \<^verbatim>\<open>nv_min\<close>,
  \<^verbatim>\<open>nv_max\<close> and \<^verbatim>\<open>operator*\<close> belong to the nvmath library, which is not part of the
  sources at hand.
\<close>

record vec4f =
  vec_x :: real
  vec_y :: real
  vec_z :: real
  vec_w :: real

text \<open>\<^verbatim>\<open>FLT_MAX\<close> of the C library: the largest finite single-precision value,
  \<open>2^128 - 2^104\<close>.\<close>

definition FLT_MAX :: real where
  "FLT_MAX = 340282346638528859811704183484516925440"

text \<open>Modelled from the spec: the constructor \<^verbatim>\<open>vec4f(float)\<close> of nvmath, used by
  \<^verbatim>\<open>min(FLT_MAX)\<close>; it sets every component to its argument.\<close>

definition vec4f_splat :: "real \<Rightarrow> vec4f" where
  "vec4f_splat v = \<lparr>vec_x = v, vec_y = v, vec_z = v, vec_w = v\<rparr>"

text \<open>Modelled from the spec: \<^verbatim>\<open>nvmath::nv_min\<close> and \<^verbatim>\<open>nvmath::nv_max\<close> on vectors, the
  componentwise minimum and maximum.\<close>

definition nv_min :: "vec4f \<Rightarrow> vec4f \<Rightarrow> vec4f" where
  "nv_min a b = \<lparr>vec_x = min (vec_x a) (vec_x b), vec_y = min (vec_y a) (vec_y b),
                 vec_z = min (vec_z a) (vec_z b), vec_w = min (vec_w a) (vec_w b)\<rparr>"

definition nv_max :: "vec4f \<Rightarrow> vec4f \<Rightarrow> vec4f" where
  "nv_max a b = \<lparr>vec_x = max (vec_x a) (vec_x b), vec_y = max (vec_y a) (vec_y b),
                 vec_z = max (vec_z a) (vec_z b), vec_w = max (vec_w a) (vec_w b)\<rparr>"

text \<open>A 4x4 matrix; \<open>aRC\<close> is the entry of row \<open>R\<close> and column \<open>C\<close>, as nvmath names them.\<close>

record mat4f =
  a00 :: real
  a10 :: real
  a20 :: real
  a30 :: real
  a01 :: real
  a11 :: real
  a21 :: real
  a31 :: real
  a02 :: real
  a12 :: real
  a22 :: real
  a32 :: real
  a03 :: real
  a13 :: real
  a23 :: real
  a33 :: real

text \<open>Modelled from the spec: \<^verbatim>\<open>matrix * box[i]\<close>, the product of a matrix and a column
  vector ("applies the affine transform to each corner").\<close>

definition mat4f_mul :: "mat4f \<Rightarrow> vec4f \<Rightarrow> vec4f" where
  "mat4f_mul m v =
     \<lparr>vec_x = a00 m * vec_x v + a01 m * vec_y v + a02 m * vec_z v + a03 m * vec_w v,
      vec_y = a10 m * vec_x v + a11 m * vec_y v + a12 m * vec_z v + a13 m * vec_w v,
      vec_z = a20 m * vec_x v + a21 m * vec_y v + a22 m * vec_z v + a23 m * vec_w v,
      vec_w = a30 m * vec_x v + a31 m * vec_y v + a32 m * vec_z v + a33 m * vec_w v\<rparr>"

definition mat4f_identity :: mat4f where
  "mat4f_identity =
     \<lparr>a00 = 1, a10 = 0, a20 = 0, a30 = 0,
      a01 = 0, a11 = 1, a21 = 0, a31 = 0,
      a02 = 0, a12 = 0, a22 = 1, a32 = 0,
      a03 = 0, a13 = 0, a23 = 0, a33 = 1\<rparr>"

section \<open>CadScene::BBox\<close>

text \<open>The fields \<^verbatim>\<open>min\<close> and \<^verbatim>\<open>max\<close> of the struct; the suffix keeps them apart from the
  functions \<open>min\<close> and \<open>max\<close> of HOL.\<close>

record BBox =
  min_b :: vec4f
  max_b :: vec4f

text \<open>The constructor \<^verbatim>\<open>BBox() : min(FLT_MAX), max(-FLT_MAX)\<close>.\<close>

definition BBox_ctor :: BBox where
  "BBox_ctor = \<lparr>min_b = vec4f_splat FLT_MAX, max_b = vec4f_splat (- FLT_MAX)\<rparr>"

text \<open>\<^verbatim>\<open>void merge(const nvmath::vec4f& point)\<close>; the box is passed in and returned.\<close>

definition merge_point :: "BBox \<Rightarrow> vec4f \<Rightarrow> BBox" where
  "merge_point b point = \<lparr>min_b = nv_min (min_b b) point, max_b = nv_max (max_b b) point\<rparr>"

text \<open>\<^verbatim>\<open>void merge(const BBox& bbox)\<close>.\<close>

definition merge_bbox :: "BBox \<Rightarrow> BBox \<Rightarrow> BBox" where
  "merge_bbox b bbox =
     \<lparr>min_b = nv_min (min_b b) (min_b bbox), max_b = nv_max (max_b b) (max_b bbox)\<rparr>"

text \<open>The array \<^verbatim>\<open>box[16]\<close> that \<^verbatim>\<open>transformed\<close> fills, in the order of the source.\<close>

definition box_corners :: "BBox \<Rightarrow> vec4f list" where
  "box_corners b =
     (let mn = min_b b; mx = max_b b in
      [\<lparr>vec_x = vec_x mn, vec_y = vec_y mn, vec_z = vec_z mn, vec_w = vec_w mn\<rparr>,
       \<lparr>vec_x = vec_x mx, vec_y = vec_y mn, vec_z = vec_z mn, vec_w = vec_w mn\<rparr>,
       \<lparr>vec_x = vec_x mn, vec_y = vec_y mx, vec_z = vec_z mn, vec_w = vec_w mn\<rparr>,
       \<lparr>vec_x = vec_x mx, vec_y = vec_y mx, vec_z = vec_z mn, vec_w = vec_w mn\<rparr>,
       \<lparr>vec_x = vec_x mn, vec_y = vec_y mn, vec_z = vec_z mx, vec_w = vec_w mn\<rparr>,
       \<lparr>vec_x = vec_x mx, vec_y = vec_y mn, vec_z = vec_z mx, vec_w = vec_w mn\<rparr>,
       \<lparr>vec_x = vec_x mn, vec_y = vec_y mx, vec_z = vec_z mx, vec_w = vec_w mn\<rparr>,
       \<lparr>vec_x = vec_x mx, vec_y = vec_y mx, vec_z = vec_z mx, vec_w = vec_w mn\<rparr>,
       \<lparr>vec_x = vec_x mn, vec_y = vec_y mn, vec_z = vec_z mn, vec_w = vec_w mx\<rparr>,
       \<lparr>vec_x = vec_x mx, vec_y = vec_y mn, vec_z = vec_z mn, vec_w = vec_w mx\<rparr>,
       \<lparr>vec_x = vec_x mn, vec_y = vec_y mx, vec_z = vec_z mn, vec_w = vec_w mx\<rparr>,
       \<lparr>vec_x = vec_x mx, vec_y = vec_y mx, vec_z = vec_z mn, vec_w = vec_w mx\<rparr>,
       \<lparr>vec_x = vec_x mn, vec_y = vec_y mn, vec_z = vec_z mx, vec_w = vec_w mx\<rparr>,
       \<lparr>vec_x = vec_x mx, vec_y = vec_y mn, vec_z = vec_z mx, vec_w = vec_w mx\<rparr>,
       \<lparr>vec_x = vec_x mn, vec_y = vec_y mx, vec_z = vec_z mx, vec_w = vec_w mx\<rparr>,
       \<lparr>vec_x = vec_x mx, vec_y = vec_y mx, vec_z = vec_z mx, vec_w = vec_w mx\<rparr>])"

text \<open>The loop \<^verbatim>\<open>for(i = 0; i < (1 << dim); i++) { point = matrix * box[i]; bbox.merge(point); }\<close>
  with \<open>n\<close> for the bound \<^verbatim>\<open>1 << dim\<close>.\<close>

function transformed_loop :: "mat4f \<Rightarrow> vec4f list \<Rightarrow> nat \<Rightarrow> nat \<Rightarrow> BBox \<Rightarrow> BBox" where
  "transformed_loop matrix box n i bbox =
     (if i < n then transformed_loop matrix box n (Suc i) (merge_point bbox (mat4f_mul matrix (box ! i)))
      else bbox)"
  by pat_completeness auto
termination
  by (relation "measure (\<lambda>(matrix, box, n, i, bbox). n - i)") auto

declare transformed_loop.simps [simp del]

text \<open>\<^verbatim>\<open>BBox transformed(const nvmath::mat4f& matrix, int dim = 3) const\<close>. The array has 16
  entries, so the loop stays inside it for \<open>0 \<le> dim \<le> 4\<close>; a negative shift count and a
  read past \<^verbatim>\<open>box[15]\<close> are undefined behaviour, which the model returns as \<open>None\<close>. (The parameter
  is written \<open>dim_n\<close>: \<open>dim\<close> is a constant of HOL.)\<close>

definition transformed :: "BBox \<Rightarrow> mat4f \<Rightarrow> int \<Rightarrow> BBox option" where
  "transformed b matrix dim_n =
     (if 0 \<le> dim_n \<and> dim_n \<le> 4
      then Some (transformed_loop matrix (box_corners b) (2 ^ nat dim_n) 0 BBox_ctor)
      else None)"

text \<open>Containment, as the spec uses the word: a point lies in a box when each of its
  components lies between the box's \<^verbatim>\<open>min\<close> and \<^verbatim>\<open>max\<close>.\<close>

definition vec4f_le :: "vec4f \<Rightarrow> vec4f \<Rightarrow> bool" where
  "vec4f_le a b \<longleftrightarrow>
     vec_x a \<le> vec_x b \<and> vec_y a \<le> vec_y b \<and> vec_z a \<le> vec_z b \<and> vec_w a \<le> vec_w b"

definition contains :: "BBox \<Rightarrow> vec4f \<Rightarrow> bool" where
  "contains b p \<longleftrightarrow> vec4f_le (min_b b) p \<and> vec4f_le p (max_b b)"

text \<open>A box is valid (non-empty) when \<^verbatim>\<open>min\<close> is componentwise at most \<^verbatim>\<open>max\<close>.\<close>

definition valid :: "BBox \<Rightarrow> bool" where
  "valid b \<longleftrightarrow> vec4f_le (min_b b) (max_b b)"

text \<open>Box \<open>c\<close> encloses box \<open>b\<close>: the bounds of \<open>b\<close> lie within the bounds of \<open>c\<close>.\<close>

definition encloses :: "BBox \<Rightarrow> BBox \<Rightarrow> bool" where
  "encloses c b \<longleftrightarrow> vec4f_le (min_b c) (min_b b) \<and> vec4f_le (max_b b) (max_b c)"

text \<open>The corner of a box picked by one flag per axis: \<open>True\<close> takes the coordinate of
  \<^verbatim>\<open>max\<close>, \<open>False\<close> that of \<^verbatim>\<open>min\<close>.\<close>

definition corner :: "BBox \<Rightarrow> bool \<Rightarrow> bool \<Rightarrow> bool \<Rightarrow> bool \<Rightarrow> vec4f" where
  "corner b ux uy uz uw =
     \<lparr>vec_x = (if ux then vec_x (max_b b) else vec_x (min_b b)),
      vec_y = (if uy then vec_y (max_b b) else vec_y (min_b b)),
      vec_z = (if uz then vec_z (max_b b) else vec_z (min_b b)),
      vec_w = (if uw then vec_w (max_b b) else vec_w (min_b b))\<rparr>"

text \<open>The box that holds exactly one point.\<close>

definition point_box :: "vec4f \<Rightarrow> BBox" where
  "point_box p = \<lparr>min_b = p, max_b = p\<rparr>"

section \<open>Sizes of the GPU-facing structs\<close>

text \<open>
  \<^verbatim>\<open>sizeof\<close> is modelled on descriptions of the C++ types: the scalar types and \<^verbatim>\<open>half\<close>
  (\<^verbatim>\<open>typedef unsigned short half\<close>) have the sizes of the common ABIs (2 bytes for a short, 4
  for \<^verbatim>\<open>uint32_t\<close>, \<^verbatim>\<open>int32_t\<close> and \<^verbatim>\<open>float\<close>, each aligned to its size), an array is its
  elements in a row, and a struct places each member at the next offset that is a multiple
  of the member's alignment and is padded at the end to a multiple of its own alignment.
\<close>

datatype ctype =
    c_uint16
  | c_uint32
  | c_int32
  | c_float
  | c_array ctype nat
  | c_struct "ctype list"

definition align_up :: "nat \<Rightarrow> nat \<Rightarrow> nat" where
  "align_up off a = ((off + a - 1) div a) * a"

fun alignof :: "ctype \<Rightarrow> nat" and alignof_fields :: "ctype list \<Rightarrow> nat" where
  "alignof c_uint16 = 2"
| "alignof c_uint32 = 4"
| "alignof c_int32 = 4"
| "alignof c_float = 4"
| "alignof (c_array t n) = alignof t"
| "alignof (c_struct fs) = alignof_fields fs"
| "alignof_fields [] = 1"
| "alignof_fields (f # fs) = max (alignof f) (alignof_fields fs)"

fun sizeof :: "ctype \<Rightarrow> nat" and end_offset :: "nat \<Rightarrow> ctype list \<Rightarrow> nat" where
  "sizeof c_uint16 = 2"
| "sizeof c_uint32 = 4"
| "sizeof c_int32 = 4"
| "sizeof c_float = 4"
| "sizeof (c_array t n) = n * sizeof t"
| "sizeof (c_struct fs) = align_up (end_offset 0 fs) (alignof_fields fs)"
| "end_offset off [] = off"
| "end_offset off (f # fs) = end_offset (align_up off (alignof f) + sizeof f) fs"

text \<open>\<^verbatim>\<open>typedef unsigned short half;\<close>\<close>

definition half_t :: ctype where
  "half_t = c_uint16"

text \<open>Modelled from the spec: the nvmath types \<^verbatim>\<open>vec3f\<close>, \<^verbatim>\<open>vec4f\<close> and \<^verbatim>\<open>mat4f\<close>, whose
  declarations are not part of the sources at hand: three, four and sixteen floats.\<close>

definition vec3f_t :: ctype where
  "vec3f_t = c_struct [c_float, c_float, c_float]"

definition vec4f_t :: ctype where
  "vec4f_t = c_struct [c_float, c_float, c_float, c_float]"

definition mat4f_t :: ctype where
  "mat4f_t = c_struct (replicate 16 c_float)"

text \<open>\<^verbatim>\<open>struct MaterialSide { vec4f ambient; vec4f diffuse; vec4f specular; vec4f emissive; }\<close>\<close>

definition MaterialSide_t :: ctype where
  "MaterialSide_t = c_struct [vec4f_t, vec4f_t, vec4f_t, vec4f_t]"

text \<open>\<^verbatim>\<open>struct Material { MaterialSide sides[2]; uint32_t _pad[8 * 4]; }\<close>\<close>

definition Material_t :: ctype where
  "Material_t = c_struct [c_array MaterialSide_t 2, c_array c_uint32 (8 * 4)]"

text \<open>\<^verbatim>\<open>struct MatrixNode { mat4f worldMatrix; mat4f worldMatrixIT; mat4f objectMatrix;
  vec4f bboxMin; vec4f bboxMax; vec3f _pad0; float winding; vec4f color; }\<close>\<close>

definition MatrixNode_t :: ctype where
  "MatrixNode_t =
     c_struct [mat4f_t, mat4f_t, mat4f_t, vec4f_t, vec4f_t, vec3f_t, c_float, vec4f_t]"

text \<open>\<^verbatim>\<open>struct Vertex { vec4f position; }\<close>, \<^verbatim>\<open>struct VertexAttributes { vec4f normal; }\<close>,
  \<^verbatim>\<open>struct VertexFP16 { half position[4]; }\<close> and
  \<^verbatim>\<open>struct VertexAttributesFP16 { half normal[4]; }\<close>\<close>

definition Vertex_t :: ctype where
  "Vertex_t = c_struct [vec4f_t]"

definition VertexAttributes_t :: ctype where
  "VertexAttributes_t = c_struct [vec4f_t]"

definition VertexFP16_t :: ctype where
  "VertexFP16_t = c_struct [c_array half_t 4]"

definition VertexAttributesFP16_t :: ctype where
  "VertexAttributesFP16_t = c_struct [c_array half_t 4]"

section \<open>The records of the scene\<close>

text \<open>\<^verbatim>\<open>uint32_t\<close> is \<open>32 word\<close>, \<^verbatim>\<open>int32_t\<close> is \<open>32 word\<close> read by \<open>sint\<close>, \<^verbatim>\<open>int\<close> is \<open>int\<close> (no claim
  does arithmetic on an \<^verbatim>\<open>int\<close> field) and \<^verbatim>\<open>size_t\<close> is \<open>nat\<close>. A raw buffer
  (\<^verbatim>\<open>void*\<close>) is \<open>None\<close> for \<^verbatim>\<open>nullptr\<close> and its bytes otherwise. Where two structs share a
  field name the record's name qualifies it, as in \<open>Geometry.parts\<close>.\<close>

type_synonym buffer = "8 word list option"

record MaterialSide =
  ambient :: vec4f
  diffuse :: vec4f
  specular :: vec4f
  emissive :: vec4f

record Material =
  sides :: "MaterialSide list"
  pad :: "32 word list"

text \<open>\<^verbatim>\<open>Material() : _pad{} { memset((void*)this, 0, sizeof(Material)); }\<close>\<close>

definition Material_ctor :: Material where
  "Material_ctor =
     \<lparr>sides = replicate 2 \<lparr>ambient = vec4f_splat 0, diffuse = vec4f_splat 0,
                            specular = vec4f_splat 0, emissive = vec4f_splat 0\<rparr>,
      pad = replicate (8 * 4) 0\<rparr>"

record MatrixNode =
  worldMatrix :: mat4f
  worldMatrixIT :: mat4f
  objectMatrix :: mat4f
  bboxMin :: vec4f
  bboxMax :: vec4f
  pad0 :: "real \<times> real \<times> real"
  winding :: real
  color :: vec4f

record DrawIndirectElements =
  count :: "32 word"
  primCount :: "32 word"
  firstIndex :: "32 word"
  baseVertex :: "32 word"
  baseInstance :: "32 word"

text \<open>\<^verbatim>\<open>DrawIndirectElements() : count(0), primCount(1), firstIndex(0), baseVertex(0),
  baseInstance(0)\<close>\<close>

definition DrawIndirectElements_ctor :: DrawIndirectElements where
  "DrawIndirectElements_ctor =
     \<lparr>count = 0, primCount = 1, firstIndex = 0, baseVertex = 0, baseInstance = 0\<rparr>"

record DrawRange =
  offset :: nat
  count :: int

text \<open>\<^verbatim>\<open>DrawRange() : offset(0), count(0)\<close>\<close>

definition DrawRange_ctor :: DrawRange where
  "DrawRange_ctor = \<lparr>DrawRange.offset = 0, DrawRange.count = 0\<rparr>"

record MeshletRange =
  offset :: "32 word"
  count :: "32 word"

record GeometryPart =
  indexSolid :: DrawRange
  meshSolid :: MeshletRange

record MeshletTopology =
  primSize :: nat
  descSize :: nat
  numMeshlets :: int
  primData :: buffer
  descData :: buffer

record Geometry =
  partOffset :: int
  useShorts :: int
  partBboxOffset :: int
  vboSize :: nat
  aboSize :: nat
  iboSize :: nat
  meshSize :: nat
  meshIndicesSize :: nat
  meshlet :: MeshletTopology
  parts :: "GeometryPart list"
  numVertices :: int
  numIndexSolid :: int
  vboData :: buffer
  aboData :: buffer
  iboData :: buffer

record ObjectPart =
  active :: int
  materialIndex :: int
  matrixIndex :: int

record Object =
  partOffset :: int
  matrixIndex :: int
  geometryIndex :: int
  faceCCW :: int
  parts :: "ObjectPart list"

text \<open>Modelled from the spec: the enum \<^verbatim>\<open>MeshletBuilderType\<close> of \<^verbatim>\<open>config.h\<close>, which is not
  part of the sources at hand: "a closed variant", of which the header names
  \<^verbatim>\<open>MESHLET_BUILDER_PACKBASIC\<close>.\<close>

datatype MeshletBuilderType = MESHLET_BUILDER_PACKBASIC | MESHLET_BUILDER_OTHER nat

record LoadConfig =
  scale :: real
  verbose :: bool
  fp16 :: bool
  allowShorts :: bool
  colorizeExtra :: bool
  extraAttributes :: "32 word"
  meshVertexCount :: "32 word"
  meshPrimitiveCount :: "32 word"
  meshBuilder :: MeshletBuilderType

text \<open>The default member initialisers of \<^verbatim>\<open>LoadConfig\<close>.\<close>

definition LoadConfig_ctor :: LoadConfig where
  "LoadConfig_ctor =
     \<lparr>scale = 1, verbose = True, fp16 = False, allowShorts = True, colorizeExtra = False,
      extraAttributes = 0, meshVertexCount = 64, meshPrimitiveCount = 126,
      meshBuilder = MESHLET_BUILDER_PACKBASIC\<rparr>"

text \<open>The data members of \<^verbatim>\<open>class CadScene\<close>.\<close>

record CadScene =
  m_materials :: "Material list"
  m_bboxes :: "BBox list"
  m_geometry :: "Geometry list"
  m_matrices :: "MatrixNode list"
  m_objects :: "Object list"
  m_vboSize :: nat
  m_iboSize :: nat
  m_meshSize :: nat
  m_numGeometryParts :: "32 word"
  m_numObjectParts :: "32 word"
  m_cfg :: LoadConfig
  m_bbox :: BBox
  m_bboxInstanced :: BBox
  m_numOrigGeometries :: nat
  m_numOrigMatrices :: nat
  m_numOrigObjects :: nat

text \<open>A default-constructed scene. \<^verbatim>\<open>m_numOrigGeometries\<close>, \<^verbatim>\<open>m_numOrigMatrices\<close> and
  \<^verbatim>\<open>m_numOrigObjects\<close> have no initialiser in the header; the values they happen to hold are
  the three arguments.\<close>

definition CadScene_ctor :: "nat \<Rightarrow> nat \<Rightarrow> nat \<Rightarrow> CadScene" where
  "CadScene_ctor g m ob =
     \<lparr>m_materials = [], m_bboxes = [], m_geometry = [], m_matrices = [], m_objects = [],
      m_vboSize = 0, m_iboSize = 0, m_meshSize = 0, m_numGeometryParts = 0,
      m_numObjectParts = 0, m_cfg = LoadConfig_ctor, m_bbox = BBox_ctor,
      m_bboxInstanced = BBox_ctor, m_numOrigGeometries = g, m_numOrigMatrices = m,
      m_numOrigObjects = ob\<rparr>"

text \<open>\<^verbatim>\<open>size_t getVertexSize() const { return m_cfg.fp16 ? sizeof(VertexFP16) : sizeof(Vertex); }\<close>\<close>

definition getVertexSize :: "CadScene \<Rightarrow> nat" where
  "getVertexSize s = (if fp16 (m_cfg s) then sizeof VertexFP16_t else sizeof Vertex_t)"

text \<open>\<^verbatim>\<open>getVertexAttributeSize\<close>: the \<^verbatim>\<open>uint32_t\<close> count is converted to \<^verbatim>\<open>size_t\<close> before
  the multiplication, which cannot wrap in 64 bits.\<close>

definition getVertexAttributeSize :: "CadScene \<Rightarrow> nat" where
  "getVertexAttributeSize s =
     (if fp16 (m_cfg s)
      then sizeof VertexAttributesFP16_t + sizeof half_t * 4 * unat (extraAttributes (m_cfg s))
      else sizeof VertexAttributes_t + sizeof c_float * 4 * unat (extraAttributes (m_cfg s)))"

text \<open>\<^verbatim>\<open>getVertex\<close> and \<^verbatim>\<open>getVertexAttribute\<close> return \<^verbatim>\<open>data\<close> advanced by this many bytes.\<close>

definition getVertex :: "CadScene \<Rightarrow> nat \<Rightarrow> nat" where
  "getVertex s index = getVertexSize s * index"

definition getVertexAttribute :: "CadScene \<Rightarrow> nat \<Rightarrow> nat" where
  "getVertexAttribute s index = getVertexAttributeSize s * index"

section \<open>The lifecycle of the scene: loadCSF and unload\<close>

text \<open>
  The header declares \<^verbatim>\<open>bool loadCSF(const char* filename, const LoadConfig& cfg, int clones = 0,
  int cloneaxis = 3)\<close> and \<^verbatim>\<open>void unload()\<close>; their bodies are not part of the sources at
  hand. The definitions of this section follow the spec, sentence by sentence, and what the
  spec leaves to collaborators (the CSF reader, the layout of one geometry with its meshlet
  builder and allocations, the matrix arithmetic of instancing) is a parameter of the model.
\<close>

text \<open>Modelled from the spec: the error taxonomy of \<^verbatim>\<open>load\<close>.\<close>

datatype load_error = SourceUnreadable | SourceMalformed | IndexOverflow | AllocationFailure

text \<open>Modelled from the spec: what the CSF source yields: "per geometry, a vertex array, an
  index array, and a part partition, and per object, a transform, material reference, and
  part-activation list". The partition is the number of indices of each part; an object
  names its geometry and its transform by index.\<close>

record csf_geometry =
  csf_vertices :: "vec4f list"
  csf_indices :: "nat list"
  csf_partition :: "nat list"

record csf_object =
  csf_geometryIndex :: nat
  csf_matrixIndex :: nat
  csf_faceCCW :: bool
  csf_parts :: "(bool \<times> nat) list"

record csf_source =
  csf_materials :: "Material list"
  csf_geometries :: "csf_geometry list"
  csf_transforms :: "mat4f list"
  csf_objects :: "csf_object list"

text \<open>Modelled from the spec: the collaborators of \<^verbatim>\<open>load\<close>. \<open>read_source\<close> opens and parses
  the file of a name; \<open>build_geometry\<close> lays out one geometry with its per-part boxes under a
  configuration and may fail; \<open>build_matrix\<close> makes the \<^verbatim>\<open>MatrixNode\<close> of a transform;
  \<open>auto_axis\<close> is the policy of \<^verbatim>\<open>cloneaxis = 3\<close>; \<open>offset_matrix axis bbox c\<close> moves a node
  to the place of clone number \<open>c\<close>.\<close>

record collaborators =
  read_source :: "string \<Rightarrow> load_error + csf_source"
  build_geometry :: "LoadConfig \<Rightarrow> csf_geometry \<Rightarrow> load_error + Geometry \<times> BBox list"
  build_matrix :: "LoadConfig \<Rightarrow> mat4f \<Rightarrow> MatrixNode"
  auto_axis :: "BBox \<Rightarrow> int"
  offset_matrix :: "int \<Rightarrow> BBox \<Rightarrow> nat \<Rightarrow> MatrixNode \<Rightarrow> MatrixNode"

text \<open>Modelled from the spec: \<^verbatim>\<open>unload()\<close> "releases every owned buffer in every Geometry and
  MeshletTopology, clears all containers, resets all size/count fields to zero". The buffers
  live inside the geometries (the destructors \<^verbatim>\<open>~Geometry\<close> and \<^verbatim>\<open>~MeshletTopology\<close> of the
  header free them), so they go with the cleared container.\<close>

definition unload :: "CadScene \<Rightarrow> CadScene" where
  "unload s =
     s\<lparr>m_materials := [], m_bboxes := [], m_geometry := [], m_matrices := [], m_objects := [],
       m_vboSize := 0, m_iboSize := 0, m_meshSize := 0, m_numGeometryParts := 0,
       m_numObjectParts := 0, m_numOrigGeometries := 0, m_numOrigMatrices := 0,
       m_numOrigObjects := 0\<rparr>"

text \<open>Modelled from the spec: the state \<^verbatim>\<open>Empty\<close>: every container empty and every size and
  count field zero.\<close>

definition containers_empty :: "CadScene \<Rightarrow> bool" where
  "containers_empty s \<longleftrightarrow>
     m_materials s = [] \<and> m_bboxes s = [] \<and> m_geometry s = [] \<and> m_matrices s = [] \<and>
     m_objects s = []"

definition counts_zero :: "CadScene \<Rightarrow> bool" where
  "counts_zero s \<longleftrightarrow>
     m_vboSize s = 0 \<and> m_iboSize s = 0 \<and> m_meshSize s = 0 \<and> m_numGeometryParts s = 0 \<and>
     m_numObjectParts s = 0 \<and> m_numOrigGeometries s = 0 \<and> m_numOrigMatrices s = 0 \<and>
     m_numOrigObjects s = 0"

definition is_Empty :: "CadScene \<Rightarrow> bool" where
  "is_Empty s \<longleftrightarrow> containers_empty s \<and> counts_zero s"

text \<open>Modelled from the spec: one built geometry enters the scene: it is appended with its
  offsets into the scene's part and box tables, its boxes are appended to the flattened table,
  and the running totals grow by its sizes.\<close>

definition add_geometry :: "CadScene \<Rightarrow> Geometry \<Rightarrow> BBox list \<Rightarrow> CadScene" where
  "add_geometry s geo boxes =
     s\<lparr>m_geometry := m_geometry s @
          [geo\<lparr>Geometry.partOffset := int (unat (m_numGeometryParts s)),
               partBboxOffset := int (length (m_bboxes s))\<rparr>],
       m_bboxes := m_bboxes s @ boxes,
       m_vboSize := m_vboSize s + vboSize geo,
       m_iboSize := m_iboSize s + iboSize geo,
       m_meshSize := m_meshSize s + meshSize geo,
       m_numGeometryParts := m_numGeometryParts s + of_nat (length (Geometry.parts geo))\<rparr>"

text \<open>Modelled from the spec: the geometries are built one after the other; the first
  failure stops the load, with the scene as far as it was built.\<close>

fun build_geometries ::
  "collaborators \<Rightarrow> LoadConfig \<Rightarrow> csf_geometry list \<Rightarrow> CadScene \<Rightarrow> load_error \<times> CadScene + CadScene" where
  "build_geometries env cfg [] s = Inr s"
| "build_geometries env cfg (g # gs) s =
     (case build_geometry env cfg g of
        Inl e \<Rightarrow> Inl (e, s)
      | Inr (geo, boxes) \<Rightarrow> build_geometries env cfg gs (add_geometry s geo boxes))"

text \<open>Modelled from the spec: the indices of an object are "validated at load time":
  its geometry, its transform and its materials exist, and its "parts count must not exceed
  the referenced geometry's part count".\<close>

definition object_ok :: "CadScene \<Rightarrow> nat \<Rightarrow> csf_object \<Rightarrow> bool" where
  "object_ok s n_transforms ob \<longleftrightarrow>
     csf_geometryIndex ob < length (m_geometry s) \<and>
     csf_matrixIndex ob < n_transforms \<and>
     list_all (\<lambda>(a, m). m < length (m_materials s)) (csf_parts ob) \<and>
     length (csf_parts ob) \<le> length (Geometry.parts (m_geometry s ! csf_geometryIndex ob))"

definition make_object :: "nat \<Rightarrow> csf_object \<Rightarrow> Object" where
  "make_object part_offset ob =
     \<lparr>Object.partOffset = int part_offset,
      Object.matrixIndex = int (csf_matrixIndex ob),
      geometryIndex = int (csf_geometryIndex ob),
      faceCCW = (if csf_faceCCW ob then 1 else 0),
      Object.parts =
        map (\<lambda>(a, m). \<lparr>active = (if a then 1 else 0), materialIndex = int m,
                         ObjectPart.matrixIndex = int (csf_matrixIndex ob)\<rparr>) (csf_parts ob)\<rparr>"

fun make_objects :: "nat \<Rightarrow> csf_object list \<Rightarrow> Object list" where
  "make_objects part_offset [] = []"
| "make_objects part_offset (ob # obs) =
     make_object part_offset ob # make_objects (part_offset + length (csf_parts ob)) obs"

text \<open>Modelled from the spec: clone number \<open>c\<close> of an object refers to clone number \<open>c\<close> of
  its matrix and to the same geometry ("clone replication only duplicates objects/matrices,
  not geometry data").\<close>

definition clone_object :: "nat \<Rightarrow> nat \<Rightarrow> nat \<Rightarrow> Object \<Rightarrow> Object" where
  "clone_object n_matrices n_parts c ob =
     ob\<lparr>Object.partOffset := Object.partOffset ob + int (c * n_parts),
        Object.matrixIndex := Object.matrixIndex ob + int (c * n_matrices),
        Object.parts :=
          map (\<lambda>p. p\<lparr>ObjectPart.matrixIndex := ObjectPart.matrixIndex p + int (c * n_matrices)\<rparr>)
            (Object.parts ob)\<rparr>"

text \<open>Modelled from the spec: "if \<^verbatim>\<open>clones > 0\<close>, replicates the entire object set \<^verbatim>\<open>clones\<close>
  times".\<close>

definition num_clones :: "int \<Rightarrow> nat" where
  "num_clones clones = (if clones > 0 then nat clones else 0)"

text \<open>Modelled from the spec: the box of one object in world space: the union of the part
  boxes of its geometry, transformed by its world matrix.\<close>

definition object_bbox :: "CadScene \<Rightarrow> Object \<Rightarrow> BBox" where
  "object_bbox s ob =
     (let geo = m_geometry s ! nat (geometryIndex ob);
          local = foldl merge_bbox BBox_ctor
                    (take (length (Geometry.parts geo)) (drop (nat (partBboxOffset geo)) (m_bboxes s)))
      in case transformed local (worldMatrix (m_matrices s ! nat (Object.matrixIndex ob))) 3 of
           Some b \<Rightarrow> b
         | None \<Rightarrow> local)"

text \<open>Modelled from the spec: the matrices and objects of the source enter the scene,
  followed by their clones; the original counts are recorded; \<^verbatim>\<open>m_bbox\<close> is the "union of
  all part boxes in object space" and \<^verbatim>\<open>m_bboxInstanced\<close> the "union of all per-object
  transformed boxes".\<close>

definition add_instances :: "collaborators \<Rightarrow> csf_source \<Rightarrow> int \<Rightarrow> int \<Rightarrow> CadScene \<Rightarrow> CadScene" where
  "add_instances env src clones cloneaxis s =
     (let cfg = m_cfg s;
          bbox = foldl merge_bbox BBox_ctor (m_bboxes s);
          axis = (if cloneaxis = 3 then auto_axis env bbox else cloneaxis);
          matrices = map (build_matrix env cfg) (csf_transforms src);
          objects = make_objects 0 (csf_objects src);
          n_parts = sum_list (map (\<lambda>ob. length (csf_parts ob)) (csf_objects src));
          copies = [0 ..< Suc (num_clones clones)];
          s1 = s\<lparr>m_matrices :=
                   concat (map (\<lambda>c. if c = 0 then matrices
                                     else map (offset_matrix env axis bbox c) matrices) copies),
                 m_objects :=
                   concat (map (\<lambda>c. if c = 0 then objects
                                     else map (clone_object (length matrices) n_parts c) objects) copies),
                 m_numObjectParts := of_nat (Suc (num_clones clones) * n_parts),
                 m_bbox := bbox,
                 m_numOrigGeometries := length (m_geometry s),
                 m_numOrigMatrices := length matrices,
                 m_numOrigObjects := length objects\<rparr>
      in s1\<lparr>m_bboxInstanced := foldl merge_bbox BBox_ctor (map (object_bbox s1) (m_objects s1))\<rparr>)"

text \<open>Modelled from the spec: the stages of a load. The result is the loaded scene, or the
  error with the scene as far as it was built when the error arose.\<close>

definition load_stages ::
  "collaborators \<Rightarrow> CadScene \<Rightarrow> string \<Rightarrow> int \<Rightarrow> int \<Rightarrow> load_error \<times> CadScene + CadScene" where
  "load_stages env s filename clones cloneaxis =
     (case read_source env filename of
        Inl e \<Rightarrow> Inl (e, s)
      | Inr src \<Rightarrow>
          (case build_geometries env (m_cfg s) (csf_geometries src)
                  (s\<lparr>m_materials := csf_materials src\<rparr>) of
             Inl (e, partial) \<Rightarrow> Inl (e, partial)
           | Inr s1 \<Rightarrow>
               if list_all (object_ok s1 (length (csf_transforms src))) (csf_objects src)
               then Inr (add_instances env src clones cloneaxis s1)
               else Inl (SourceMalformed, s1)))"

text \<open>Modelled from the spec: \<^verbatim>\<open>loadCSF\<close>. "Re-entrant loads are not supported in-place -
  unload must precede a second load": on a scene whose containers are not empty the spec
  gives the call no behaviour, and the model returns \<open>None\<close>. Otherwise the call returns its
  success flag and the scene; "all failures during load abort the entire load and roll back
  to the empty state".\<close>

definition loadCSF ::
  "collaborators \<Rightarrow> CadScene \<Rightarrow> string \<Rightarrow> LoadConfig \<Rightarrow> int \<Rightarrow> int \<Rightarrow> (bool \<times> CadScene) option" where
  "loadCSF env s filename cfg clones cloneaxis =
     (if \<not> containers_empty s then None
      else Some (case load_stages env (s\<lparr>m_cfg := cfg\<rparr>) filename clones cloneaxis of
                   Inl (e, partial) \<Rightarrow> (False, unload partial)
                 | Inr s' \<Rightarrow> (True, s')))"

section \<open>An example source and example collaborators\<close>

text \<open>A concrete instance of the parameters of \<open>loadCSF\<close>, on which the theorems below are
  run: a reader that knows five file names, a geometry builder that lays out 16-byte or
  8-byte vertices and 4-byte indices and allocates at most a given number of bytes per
  geometry, and an instancing policy that moves clones along x by the width of the scene.\<close>

fun part_ranges :: "nat \<Rightarrow> nat list \<Rightarrow> GeometryPart list" where
  "part_ranges off [] = []"
| "part_ranges off (n # ns) =
     \<lparr>indexSolid = \<lparr>DrawRange.offset = off * 4, DrawRange.count = int n\<rparr>,
      meshSolid = \<lparr>MeshletRange.offset = 0, MeshletRange.count = 0\<rparr>\<rparr> # part_ranges (off + n) ns"

fun part_boxes :: "vec4f list \<Rightarrow> nat list \<Rightarrow> nat list \<Rightarrow> BBox list" where
  "part_boxes verts idx [] = []"
| "part_boxes verts idx (n # ns) =
     foldl merge_point BBox_ctor (map (\<lambda>i. verts ! i) (take n idx)) # part_boxes verts (drop n idx) ns"

definition example_build_geometry ::
  "nat \<Rightarrow> LoadConfig \<Rightarrow> csf_geometry \<Rightarrow> load_error + Geometry \<times> BBox list" where
  "example_build_geometry budget cfg g =
     (let nv = length (csf_vertices g); ni = length (csf_indices g);
          vsz = (if fp16 cfg then 8 else 16) * nv; isz = 4 * ni
      in if 2 ^ 32 \<le> ni then Inl IndexOverflow
         else if sum_list (csf_partition g) \<noteq> ni \<or> \<not> list_all (\<lambda>i. i < nv) (csf_indices g)
         then Inl SourceMalformed
         else if budget < vsz + isz then Inl AllocationFailure
         else Inr (\<lparr>Geometry.partOffset = 0,
                    useShorts = (if allowShorts cfg \<and> nv < 65536 then 1 else 0),
                    partBboxOffset = 0, vboSize = vsz, aboSize = 0, iboSize = isz, meshSize = 0,
                    meshIndicesSize = 0,
                    meshlet = \<lparr>primSize = 0, descSize = 0, numMeshlets = 0, primData = None,
                               descData = None\<rparr>,
                    Geometry.parts = part_ranges 0 (csf_partition g),
                    numVertices = int nv, numIndexSolid = int ni,
                    vboData = Some (replicate vsz 0), aboData = None,
                    iboData = Some (replicate isz 0)\<rparr>,
                   part_boxes (csf_vertices g) (csf_indices g) (csf_partition g)))"

definition example_triangle :: csf_geometry where
  "example_triangle =
     \<lparr>csf_vertices = [\<lparr>vec_x = 0, vec_y = 0, vec_z = 0, vec_w = 1\<rparr>,
                      \<lparr>vec_x = 1, vec_y = 0, vec_z = 0, vec_w = 1\<rparr>,
                      \<lparr>vec_x = 0, vec_y = 1, vec_z = 0, vec_w = 1\<rparr>],
      csf_indices = [0, 1, 2], csf_partition = [3]\<rparr>"

definition example_object :: csf_object where
  "example_object =
     \<lparr>csf_geometryIndex = 0, csf_matrixIndex = 0, csf_faceCCW = True, csf_parts = [(True, 0)]\<rparr>"

text \<open>One triangle, one material, one object.\<close>

definition example_source :: csf_source where
  "example_source =
     \<lparr>csf_materials = [Material_ctor], csf_geometries = [example_triangle],
      csf_transforms = [mat4f_identity], csf_objects = [example_object]\<rparr>"

text \<open>The triangle, followed by a geometry of nine indices, which needs 84 bytes.\<close>

definition example_source_unbuildable :: csf_source where
  "example_source_unbuildable =
     \<lparr>csf_materials = [Material_ctor],
      csf_geometries =
        [example_triangle,
         example_triangle\<lparr>csf_indices := [0, 1, 2, 0, 1, 2, 0, 1, 2], csf_partition := [9]\<rparr>],
      csf_transforms = [mat4f_identity], csf_objects = [example_object]\<rparr>"

text \<open>The triangle with an object that names geometry 5, which the source does not have.\<close>

definition example_source_dangling :: csf_source where
  "example_source_dangling =
     \<lparr>csf_materials = [Material_ctor], csf_geometries = [example_triangle],
      csf_transforms = [mat4f_identity],
      csf_objects = [example_object\<lparr>csf_geometryIndex := 5\<rparr>]\<rparr>"

text \<open>A geometry of \<open>2^32\<close> indices, one more than 32 bits address.\<close>

definition example_source_huge :: csf_source where
  "example_source_huge =
     \<lparr>csf_materials = [Material_ctor],
      csf_geometries =
        [example_triangle\<lparr>csf_indices := replicate (2 ^ 32) 0, csf_partition := [2 ^ 32]\<rparr>],
      csf_transforms = [mat4f_identity], csf_objects = [example_object]\<rparr>"

definition example_collaborators :: collaborators where
  "example_collaborators =
     \<lparr>read_source = (\<lambda>name. if name = ''triangle.csf'' then Inr example_source
                             else if name = ''big.csf'' then Inr example_source_unbuildable
                             else if name = ''dangling.csf'' then Inr example_source_dangling
                             else if name = ''huge.csf'' then Inr example_source_huge
                             else if name = ''broken.csf'' then Inl SourceMalformed
                             else Inl SourceUnreadable),
      build_geometry = example_build_geometry 64,
      build_matrix = (\<lambda>cfg m. \<lparr>worldMatrix = m, worldMatrixIT = m, objectMatrix = m,
                                bboxMin = vec4f_splat 0, bboxMax = vec4f_splat 0,
                                pad0 = (0, 0, 0), winding = 1, color = vec4f_splat 1\<rparr>),
      auto_axis = (\<lambda>bbox. 0),
      offset_matrix = (\<lambda>axis bbox c node.
         node\<lparr>worldMatrix := (worldMatrix node)\<lparr>a03 := a03 (worldMatrix node)
                   + real c * (vec_x (max_b bbox) - vec_x (min_b bbox))\<rparr>\<rparr>)\<rparr>"

text \<open>A unit cube at \<open>w = 1\<close>, a box whose \<^verbatim>\<open>min.w\<close> and \<^verbatim>\<open>max.w\<close> differ, a box whose
  \<^verbatim>\<open>min.x\<close> lies above its \<^verbatim>\<open>max.x\<close>, and a matrix that scales by 2 and moves by 10 along x.\<close>

definition example_cube :: BBox where
  "example_cube = \<lparr>min_b = \<lparr>vec_x = 0, vec_y = 0, vec_z = 0, vec_w = 1\<rparr>,
                    max_b = \<lparr>vec_x = 1, vec_y = 1, vec_z = 1, vec_w = 1\<rparr>\<rparr>"

definition example_w_box :: BBox where
  "example_w_box = \<lparr>min_b = vec4f_splat 0, max_b = \<lparr>vec_x = 0, vec_y = 0, vec_z = 0, vec_w = 1\<rparr>\<rparr>"

definition example_inverted_box :: BBox where
  "example_inverted_box = \<lparr>min_b = \<lparr>vec_x = - 3, vec_y = 0, vec_z = 0, vec_w = 0\<rparr>,
                            max_b = \<lparr>vec_x = - 5, vec_y = 0, vec_z = 0, vec_w = 0\<rparr>\<rparr>"

definition example_matrix :: mat4f where
  "example_matrix = mat4f_identity\<lparr>a00 := 2, a11 := 2, a22 := 2, a03 := 10\<rparr>"

section \<open>Properties of BBox\<close>

lemmas box_defs = merge_point_def merge_bbox_def nv_min_def nv_max_def contains_def
  vec4f_le_def valid_def encloses_def point_box_def

lemmas example_box_defs = example_cube_def example_w_box_def example_inverted_box_def
  example_matrix_def mat4f_identity_def vec4f_splat_def

subsection \<open>The loop of transformed\<close>

lemma transformed_loop_foldl:
  "i \<le> n \<Longrightarrow> n \<le> length box \<Longrightarrow>
   transformed_loop matrix box n i bbox =
     foldl merge_point bbox (map (mat4f_mul matrix) (drop i (take n box)))"
proof (induction matrix box n i bbox rule: transformed_loop.induct)
  case (1 matrix box n i bbox)
  show ?case
  proof (cases "i < n")
    case True
    then have "drop i (take n box) = box ! i # drop (Suc i) (take n box)"
      using "1.prems" by (metis Cons_nth_drop_Suc length_take min.absorb2 nth_take)
    with True "1.IH" "1.prems" show ?thesis
      by (subst transformed_loop.simps) simp
  next
    case False
    with "1.prems" show ?thesis
      by (subst transformed_loop.simps) simp
  qed
qed

lemma length_box_corners: "length (box_corners b) = 16"
  by (simp add: box_corners_def Let_def)

lemma transformed_3_eq:
  "transformed A M 3 =
     Some (foldl merge_point BBox_ctor (map (mat4f_mul M) (take 8 (box_corners A))))"
  by (simp add: transformed_def transformed_loop_foldl length_box_corners)

lemma transformed_4_eq:
  "transformed A M 4 = Some (foldl merge_point BBox_ctor (map (mat4f_mul M) (box_corners A)))"
  by (simp add: transformed_def transformed_loop_foldl length_box_corners)

lemma take8_corners:
  "take 8 (box_corners A) =
     [corner A False False False False, corner A True False False False,
      corner A False True False False, corner A True True False False,
      corner A False False True False, corner A True False True False,
      corner A False True True False, corner A True True True False]"
  by (simp add: box_corners_def corner_def Let_def)

lemma all_corners:
  "box_corners A =
     [corner A False False False False, corner A True False False False,
      corner A False True False False, corner A True True False False,
      corner A False False True False, corner A True False True False,
      corner A False True True False, corner A True True True False,
      corner A False False False True, corner A True False False True,
      corner A False True False True, corner A True True False True,
      corner A False False True True, corner A True False True True,
      corner A False True True True, corner A True True True True]"
  by (simp add: box_corners_def corner_def Let_def)

lemma corner_in_take8: "corner A ux uy uz False \<in> set (take 8 (box_corners A))"
  unfolding take8_corners by (cases ux; cases uy; cases uz) simp_all

lemma corner_in_corners: "corner A ux uy uz uw \<in> set (box_corners A)"
  by (subst all_corners) (cases ux; cases uy; cases uz; cases uw; simp)

subsection \<open>Merging keeps what a box contains\<close>

lemma contains_merge_point_self: "contains (merge_point b p) p"
  by (simp add: box_defs)

lemma contains_merge_point_mono: "contains b p \<Longrightarrow> contains (merge_point b q) p"
  by (auto simp: box_defs)

lemma contains_foldl_mono: "contains b p \<Longrightarrow> contains (foldl merge_point b ps) p"
  by (induction ps arbitrary: b) (simp_all add: contains_merge_point_mono)

lemma contains_foldl_member: "p \<in> set ps \<Longrightarrow> contains (foldl merge_point b ps) p"
proof (induction ps arbitrary: b)
  case Nil
  then show ?case by simp
next
  case (Cons q ps)
  show ?case
  proof (cases "p = q")
    case True
    then show ?thesis
      by (simp add: contains_foldl_mono contains_merge_point_self)
  next
    case False
    with Cons show ?thesis by simp
  qed
qed

lemma valid_merge_point_any: "valid (merge_point b p)"
  by (auto simp: box_defs)

lemma valid_foldl_merge_point: "ps \<noteq> [] \<Longrightarrow> valid (foldl merge_point b ps)"
proof (induction ps arbitrary: b rule: rev_induct)
  case Nil
  then show ?case by simp
next
  case (snoc p ps)
  show ?case by (simp add: valid_merge_point_any)
qed

subsection \<open>transformed\<close>

text \<open>
  Claim C1, as amended. For every box \<open>A\<close> and every matrix \<open>M\<close>, \<^verbatim>\<open>A.transformed(M, 3)\<close>
  returns the box obtained by merging, into a fresh box, the products of \<open>M\<close> with the first
  eight entries of \<^verbatim>\<open>box\<close>. These are the \<open>2^3\<close> combinations of \<^verbatim>\<open>min\<close> and \<^verbatim>\<open>max\<close> in x, y
  and z, each with \<^verbatim>\<open>min.w\<close> as its fourth coordinate, and the result contains the transform
  of each of them. The eight corners whose fourth coordinate is \<^verbatim>\<open>max.w\<close> are visited when
  \<^verbatim>\<open>dim\<close> is 4: then the result contains the transform of all sixteen corners.
\<close>

theorem transformed_3_corners:
  "(\<exists>R. transformed A M 3 = Some R
      \<and> R = foldl merge_point BBox_ctor (map (mat4f_mul M) (take 8 (box_corners A)))
      \<and> take 8 (box_corners A) =
          [corner A False False False False, corner A True False False False,
           corner A False True False False, corner A True True False False,
           corner A False False True False, corner A True False True False,
           corner A False True True False, corner A True True True False]
      \<and> (\<forall>ux uy uz. contains R (mat4f_mul M (corner A ux uy uz False))))
   \<and> (\<exists>R4. transformed A M 4 = Some R4
      \<and> (\<forall>ux uy uz uw. contains R4 (mat4f_mul M (corner A ux uy uz uw))))"
proof
  let ?R = "foldl merge_point BBox_ctor (map (mat4f_mul M) (take 8 (box_corners A)))"
  have "contains ?R (mat4f_mul M (corner A ux uy uz False))" for ux uy uz
    by (rule contains_foldl_member) (simp add: corner_in_take8)
  then show "\<exists>R. transformed A M 3 = Some R
      \<and> R = foldl merge_point BBox_ctor (map (mat4f_mul M) (take 8 (box_corners A)))
      \<and> take 8 (box_corners A) =
          [corner A False False False False, corner A True False False False,
           corner A False True False False, corner A True True False False,
           corner A False False True False, corner A True False True False,
           corner A False True True False, corner A True True True False]
      \<and> (\<forall>ux uy uz. contains R (mat4f_mul M (corner A ux uy uz False)))"
    using transformed_3_eq [of A M] take8_corners [of A] by blast
next
  let ?R = "foldl merge_point BBox_ctor (map (mat4f_mul M) (box_corners A))"
  have "contains ?R (mat4f_mul M (corner A ux uy uz uw))" for ux uy uz uw
    by (rule contains_foldl_member) (simp add: corner_in_corners)
  then show "\<exists>R4. transformed A M 4 = Some R4
      \<and> (\<forall>ux uy uz uw. contains R4 (mat4f_mul M (corner A ux uy uz uw)))"
    using transformed_4_eq [of A M] by blast
qed

text \<open>The unit cube under the example matrix: x runs from 10 to 12, y and z from 0 to 2.\<close>

theorem transformed_3_corners_witness:
  "transformed example_cube example_matrix 3 =
     Some \<lparr>min_b = \<lparr>vec_x = 10, vec_y = 0, vec_z = 0, vec_w = 1\<rparr>,
           max_b = \<lparr>vec_x = 12, vec_y = 2, vec_z = 2, vec_w = 1\<rparr>\<rparr>
   \<and> mat4f_mul example_matrix (corner example_cube True True False False)
       = \<lparr>vec_x = 12, vec_y = 2, vec_z = 0, vec_w = 1\<rparr>
   \<and> contains \<lparr>min_b = \<lparr>vec_x = 10, vec_y = 0, vec_z = 0, vec_w = 1\<rparr>,
               max_b = \<lparr>vec_x = 12, vec_y = 2, vec_z = 2, vec_w = 1\<rparr>\<rparr>
        (mat4f_mul example_matrix (corner example_cube True True False False))"
proof -
  from transformed_3_corners [of example_cube example_matrix]
  obtain R where r: "transformed example_cube example_matrix 3 = Some R"
    and f: "R = foldl merge_point BBox_ctor
                  (map (mat4f_mul example_matrix) (take 8 (box_corners example_cube)))"
    and c: "contains R (mat4f_mul example_matrix (corner example_cube True True False False))"
    by blast
  have "R = \<lparr>min_b = \<lparr>vec_x = 10, vec_y = 0, vec_z = 0, vec_w = 1\<rparr>,
             max_b = \<lparr>vec_x = 12, vec_y = 2, vec_z = 2, vec_w = 1\<rparr>\<rparr>"
    unfolding f
    by (simp add: box_corners_def Let_def merge_point_def nv_min_def nv_max_def mat4f_mul_def
        BBox_ctor_def FLT_MAX_def example_box_defs)
  moreover have "mat4f_mul example_matrix (corner example_cube True True False False)
       = \<lparr>vec_x = 12, vec_y = 2, vec_z = 0, vec_w = 1\<rparr>"
    by (simp add: mat4f_mul_def corner_def example_box_defs)
  ultimately show ?thesis
    using r c by simp
qed

text \<open>The claim as it was stated fails: with \<^verbatim>\<open>dim = 3\<close> no corner takes its fourth
  coordinate from \<^verbatim>\<open>max.w\<close>. For the box from \<open>(0,0,0,0)\<close> to \<open>(0,0,0,1)\<close> and the identity
  matrix the result is the single point \<open>(0,0,0,0)\<close>, which does not contain the corner
  \<open>(0,0,0,1)\<close>.\<close>

theorem transformed_3_w_counterexample:
  "transformed example_w_box mat4f_identity 3
     = Some \<lparr>min_b = vec4f_splat 0, max_b = vec4f_splat 0\<rparr>
   \<and> mat4f_mul mat4f_identity (corner example_w_box False False False True)
       = \<lparr>vec_x = 0, vec_y = 0, vec_z = 0, vec_w = 1\<rparr>
   \<and> \<not> contains \<lparr>min_b = vec4f_splat 0, max_b = vec4f_splat 0\<rparr>
        (mat4f_mul mat4f_identity (corner example_w_box False False False True))"
  by (simp add: transformed_3_eq box_corners_def Let_def box_defs mat4f_mul_def
      BBox_ctor_def FLT_MAX_def corner_def example_box_defs)

subsection \<open>merge\<close>

text \<open>
  Claim C2, as amended. For all boxes \<open>A\<close> and \<open>B\<close>, the result of \<^verbatim>\<open>A.merge(B)\<close> is the
  componentwise minimum of the two \<^verbatim>\<open>min\<close> vectors and the componentwise maximum of the two
  \<^verbatim>\<open>max\<close> vectors; it contains every point that \<open>A\<close> or \<open>B\<close> contains; it encloses \<open>A\<close> and
  \<open>B\<close> and is enclosed by every box that encloses both; and when \<open>A\<close> and \<open>B\<close> are valid
  (\<^verbatim>\<open>min\<close> at most \<^verbatim>\<open>max\<close> in every component) it is the smallest box that contains every
  point that \<open>A\<close> and \<open>B\<close> contain.
\<close>

theorem merge_bbox_smallest:
  "merge_bbox A B = \<lparr>min_b = nv_min (min_b A) (min_b B), max_b = nv_max (max_b A) (max_b B)\<rparr>
   \<and> (\<forall>p. contains A p \<or> contains B p \<longrightarrow> contains (merge_bbox A B) p)
   \<and> encloses (merge_bbox A B) A \<and> encloses (merge_bbox A B) B
   \<and> (\<forall>C. encloses C A \<and> encloses C B \<longrightarrow> encloses C (merge_bbox A B))
   \<and> (valid A \<and> valid B \<longrightarrow>
        (\<forall>C. (\<forall>p. contains A p \<or> contains B p \<longrightarrow> contains C p)
              \<longrightarrow> encloses C (merge_bbox A B)))"
proof (intro conjI allI impI)
  show "merge_bbox A B = \<lparr>min_b = nv_min (min_b A) (min_b B), max_b = nv_max (max_b A) (max_b B)\<rparr>"
    by (simp add: merge_bbox_def)
next
  fix p assume "contains A p \<or> contains B p"
  then show "contains (merge_bbox A B) p"
    by (auto simp: box_defs)
next
  show "encloses (merge_bbox A B) A" by (simp add: box_defs)
next
  show "encloses (merge_bbox A B) B" by (simp add: box_defs)
next
  fix C assume "encloses C A \<and> encloses C B"
  then show "encloses C (merge_bbox A B)" by (simp add: box_defs)
next
  fix C
  assume v: "valid A \<and> valid B"
    and c: "\<forall>p. contains A p \<or> contains B p \<longrightarrow> contains C p"
  from v have "contains A (min_b A)" "contains A (max_b A)"
    "contains B (min_b B)" "contains B (max_b B)"
    by (simp_all add: box_defs)
  with c have "contains C (min_b A)" "contains C (max_b A)"
    "contains C (min_b B)" "contains C (max_b B)"
    by blast+
  then show "encloses C (merge_bbox A B)"
    by (simp add: box_defs)
qed

text \<open>The unit cube merged with the point \<open>(3,3,3,1)\<close>: the result runs from 0 to 3, and the
  box from \<open>-1\<close> to 4, which contains every point of the two, encloses it.\<close>

theorem merge_bbox_smallest_witness:
  "valid example_cube \<and> valid (point_box \<lparr>vec_x = 3, vec_y = 3, vec_z = 3, vec_w = 1\<rparr>)
   \<and> merge_bbox example_cube (point_box \<lparr>vec_x = 3, vec_y = 3, vec_z = 3, vec_w = 1\<rparr>)
       = \<lparr>min_b = \<lparr>vec_x = 0, vec_y = 0, vec_z = 0, vec_w = 1\<rparr>,
          max_b = \<lparr>vec_x = 3, vec_y = 3, vec_z = 3, vec_w = 1\<rparr>\<rparr>
   \<and> contains example_cube \<lparr>vec_x = 1, vec_y = 0, vec_z = 1, vec_w = 1\<rparr>
   \<and> contains (merge_bbox example_cube (point_box \<lparr>vec_x = 3, vec_y = 3, vec_z = 3, vec_w = 1\<rparr>))
        \<lparr>vec_x = 1, vec_y = 0, vec_z = 1, vec_w = 1\<rparr>
   \<and> encloses \<lparr>min_b = vec4f_splat (- 1), max_b = vec4f_splat 4\<rparr>
        (merge_bbox example_cube (point_box \<lparr>vec_x = 3, vec_y = 3, vec_z = 3, vec_w = 1\<rparr>))"
proof -
  let ?B = "point_box \<lparr>vec_x = 3, vec_y = 3, vec_z = 3, vec_w = 1\<rparr>"
  let ?C = "\<lparr>min_b = vec4f_splat (- 1), max_b = vec4f_splat 4\<rparr>"
  have v: "valid example_cube \<and> valid ?B"
    by (simp add: valid_def vec4f_le_def point_box_def example_cube_def)
  have k: "contains example_cube \<lparr>vec_x = 1, vec_y = 0, vec_z = 1, vec_w = 1\<rparr>"
    by (simp add: contains_def vec4f_le_def example_cube_def)
  have c: "\<forall>p. contains example_cube p \<or> contains ?B p \<longrightarrow> contains ?C p"
    by (auto simp: contains_def vec4f_le_def point_box_def example_cube_def vec4f_splat_def)
  have m: "merge_bbox example_cube ?B
       = \<lparr>min_b = \<lparr>vec_x = 0, vec_y = 0, vec_z = 0, vec_w = 1\<rparr>,
          max_b = \<lparr>vec_x = 3, vec_y = 3, vec_z = 3, vec_w = 1\<rparr>\<rparr>"
    by (simp add: merge_bbox_def nv_min_def nv_max_def point_box_def example_cube_def)
  from merge_bbox_smallest [of example_cube ?B] v k c m show ?thesis
    by metis
qed

text \<open>The claim as it was stated fails for a box that is not valid. The box from \<open>x = -3\<close> to
  \<open>x = -5\<close> contains no point, so the box of the origin alone contains every point that it
  and the origin's box contain; their merge reaches from \<open>x = -3\<close> to 0 and is not enclosed by
  the origin's box.\<close>

theorem merge_bbox_inverted_counterexample:
  "(\<forall>p. \<not> contains example_inverted_box p)
   \<and> merge_bbox example_inverted_box (point_box (vec4f_splat 0))
       = \<lparr>min_b = \<lparr>vec_x = - 3, vec_y = 0, vec_z = 0, vec_w = 0\<rparr>, max_b = vec4f_splat 0\<rparr>
   \<and> \<not> encloses (point_box (vec4f_splat 0))
         (merge_bbox example_inverted_box (point_box (vec4f_splat 0)))
   \<and> \<not> (\<forall>C. (\<forall>p. contains example_inverted_box p \<or> contains (point_box (vec4f_splat 0)) p
                    \<longrightarrow> contains C p)
              \<longrightarrow> encloses C (merge_bbox example_inverted_box (point_box (vec4f_splat 0))))"
proof (intro conjI allI)
  let ?B = "point_box (vec4f_splat 0)"
  show a: "\<not> contains example_inverted_box p" for p
    by (simp add: contains_def vec4f_le_def example_inverted_box_def)
  show "merge_bbox example_inverted_box ?B
          = \<lparr>min_b = \<lparr>vec_x = - 3, vec_y = 0, vec_z = 0, vec_w = 0\<rparr>, max_b = vec4f_splat 0\<rparr>"
    by (simp add: box_defs vec4f_splat_def example_inverted_box_def)
  show e: "\<not> encloses ?B (merge_bbox example_inverted_box ?B)"
    by (simp add: box_defs vec4f_splat_def example_inverted_box_def)
  show "\<not> (\<forall>C. (\<forall>p. contains example_inverted_box p \<or> contains ?B p \<longrightarrow> contains C p)
              \<longrightarrow> encloses C (merge_bbox example_inverted_box ?B))"
  proof
    assume "\<forall>C. (\<forall>p. contains example_inverted_box p \<or> contains ?B p \<longrightarrow> contains C p)
              \<longrightarrow> encloses C (merge_bbox example_inverted_box ?B)"
    then have "(\<forall>p. contains example_inverted_box p \<or> contains ?B p \<longrightarrow> contains ?B p)
              \<longrightarrow> encloses ?B (merge_bbox example_inverted_box ?B)"
      by (rule spec)
    with a e show False by blast
  qed
qed

text \<open>
  Claim C8. Merging boxes is associative and commutative, and the order of two merges into
  a box does not matter; the same holds for merging points, where merging a point is
  merging the box of that point.
\<close>

theorem merge_assoc_comm:
  "merge_bbox (merge_bbox A B) C = merge_bbox A (merge_bbox B C)
   \<and> merge_bbox A B = merge_bbox B A
   \<and> merge_bbox (merge_bbox A B) C = merge_bbox (merge_bbox A C) B
   \<and> merge_point (merge_point A p) q = merge_point (merge_point A q) p
   \<and> merge_point A p = merge_bbox A (point_box p)
   \<and> merge_point (merge_point A p) q = merge_bbox A (merge_point (point_box p) q)"
  by (simp add: box_defs min.assoc max.assoc min.commute max.commute
      min.left_commute max.left_commute)

subsection \<open>The constructor\<close>

text \<open>
  Claim C5, as amended. A default-constructed box starts at the sentinel
  \<open>(+FLT_MAX, -FLT_MAX)\<close>: every component of \<^verbatim>\<open>min\<close> is the largest finite float and every
  component of \<^verbatim>\<open>max\<close> is its negation. The box is not valid and contains no point, and
  merging it with another default box leaves it as it is; it is valid after the merge of at
  least one point or of a valid box. For a point whose components are finite floats the
  sentinel is neutral: the first merge yields the box of that point.
\<close>

theorem BBox_ctor_sentinel:
  "min_b BBox_ctor = vec4f_splat FLT_MAX \<and> max_b BBox_ctor = vec4f_splat (- FLT_MAX)
   \<and> 0 < FLT_MAX
   \<and> \<not> valid BBox_ctor
   \<and> (\<forall>p. \<not> contains BBox_ctor p)
   \<and> merge_bbox BBox_ctor BBox_ctor = BBox_ctor
   \<and> (\<forall>p. valid (merge_point BBox_ctor p))
   \<and> (ps \<noteq> [] \<longrightarrow> valid (foldl merge_point BBox_ctor ps))
   \<and> (valid B \<longrightarrow> valid (merge_bbox BBox_ctor B))
   \<and> (vec4f_le (vec4f_splat (- FLT_MAX)) q \<and> vec4f_le q (vec4f_splat FLT_MAX)
        \<longrightarrow> merge_point BBox_ctor q = point_box q)"
proof (intro conjI allI impI)
  show "min_b BBox_ctor = vec4f_splat FLT_MAX" "max_b BBox_ctor = vec4f_splat (- FLT_MAX)"
    by (simp_all add: BBox_ctor_def)
  show "0 < FLT_MAX"
    by (simp add: FLT_MAX_def)
  show "\<not> valid BBox_ctor"
    by (simp add: valid_def vec4f_le_def BBox_ctor_def vec4f_splat_def FLT_MAX_def)
  show "\<not> contains BBox_ctor p" for p
    by (simp add: contains_def vec4f_le_def BBox_ctor_def vec4f_splat_def FLT_MAX_def)
  show "merge_bbox BBox_ctor BBox_ctor = BBox_ctor"
    by (simp add: merge_bbox_def nv_min_def nv_max_def BBox_ctor_def vec4f_splat_def)
  show "valid (merge_point BBox_ctor p)" for p
    by (rule valid_merge_point_any)
  show "valid (foldl merge_point BBox_ctor ps)" if "ps \<noteq> []"
    using that by (rule valid_foldl_merge_point)
  show "valid (merge_bbox BBox_ctor B)" if "valid B"
    using that by (auto simp: box_defs)
  show "merge_point BBox_ctor q = point_box q"
    if "vec4f_le (vec4f_splat (- FLT_MAX)) q \<and> vec4f_le q (vec4f_splat FLT_MAX)"
    using that by (simp add: box_defs BBox_ctor_def vec4f_splat_def min_def max_def)
qed

theorem BBox_ctor_sentinel_witness:
  "[\<lparr>vec_x = 1, vec_y = 2, vec_z = 3, vec_w = 1\<rparr>, \<lparr>vec_x = - 1, vec_y = 5, vec_z = 0, vec_w = 1\<rparr>] \<noteq> []
   \<and> valid (foldl merge_point BBox_ctor
        [\<lparr>vec_x = 1, vec_y = 2, vec_z = 3, vec_w = 1\<rparr>, \<lparr>vec_x = - 1, vec_y = 5, vec_z = 0, vec_w = 1\<rparr>])
   \<and> foldl merge_point BBox_ctor
        [\<lparr>vec_x = 1, vec_y = 2, vec_z = 3, vec_w = 1\<rparr>, \<lparr>vec_x = - 1, vec_y = 5, vec_z = 0, vec_w = 1\<rparr>]
      = \<lparr>min_b = \<lparr>vec_x = - 1, vec_y = 2, vec_z = 0, vec_w = 1\<rparr>,
         max_b = \<lparr>vec_x = 1, vec_y = 5, vec_z = 3, vec_w = 1\<rparr>\<rparr>
   \<and> valid (point_box (vec4f_splat 2))
   \<and> valid (merge_bbox BBox_ctor (point_box (vec4f_splat 2)))
   \<and> vec4f_le (vec4f_splat (- FLT_MAX)) (vec4f_splat 2)
   \<and> vec4f_le (vec4f_splat 2) (vec4f_splat FLT_MAX)
   \<and> merge_point BBox_ctor (vec4f_splat 2) = point_box (vec4f_splat 2)"
proof -
  have v: "valid (point_box (vec4f_splat 2))"
    by (simp add: valid_def point_box_def vec4f_le_def)
  have r: "vec4f_le (vec4f_splat (- FLT_MAX)) (vec4f_splat 2)
         \<and> vec4f_le (vec4f_splat 2) (vec4f_splat FLT_MAX)"
    by (simp add: vec4f_le_def vec4f_splat_def FLT_MAX_def)
  have e: "foldl merge_point BBox_ctor
        [\<lparr>vec_x = 1, vec_y = 2, vec_z = 3, vec_w = 1\<rparr>, \<lparr>vec_x = - 1, vec_y = 5, vec_z = 0, vec_w = 1\<rparr>]
      = \<lparr>min_b = \<lparr>vec_x = - 1, vec_y = 2, vec_z = 0, vec_w = 1\<rparr>,
         max_b = \<lparr>vec_x = 1, vec_y = 5, vec_z = 3, vec_w = 1\<rparr>\<rparr>"
    by (simp add: merge_point_def nv_min_def nv_max_def BBox_ctor_def vec4f_splat_def FLT_MAX_def)
  from BBox_ctor_sentinel
    [of "[\<lparr>vec_x = 1, vec_y = 2, vec_z = 3, vec_w = 1\<rparr>, \<lparr>vec_x = - 1, vec_y = 5, vec_z = 0, vec_w = 1\<rparr>]"
        "point_box (vec4f_splat 2)" "vec4f_splat 2"] v r e
  show ?thesis by simp
qed

text \<open>The claim as it was stated fails: the components of the sentinel are the finite
  numbers \<open>2^128 - 2^104\<close> and \<open>-(2^128 - 2^104)\<close>, not the infinities.\<close>

theorem BBox_ctor_finite_counterexample:
  "vec_x (min_b BBox_ctor) = 340282346638528859811704183484516925440
   \<and> vec_y (min_b BBox_ctor) = 340282346638528859811704183484516925440
   \<and> vec_z (min_b BBox_ctor) = 340282346638528859811704183484516925440
   \<and> vec_w (min_b BBox_ctor) = 340282346638528859811704183484516925440
   \<and> vec_x (max_b BBox_ctor) = - 340282346638528859811704183484516925440
   \<and> vec_y (max_b BBox_ctor) = - 340282346638528859811704183484516925440
   \<and> vec_z (max_b BBox_ctor) = - 340282346638528859811704183484516925440
   \<and> vec_w (max_b BBox_ctor) = - 340282346638528859811704183484516925440
   \<and> vec_x (min_b BBox_ctor) < 2 ^ 128 \<and> - (2 ^ 128) < vec_x (max_b BBox_ctor)"
  by (simp add: BBox_ctor_def vec4f_splat_def FLT_MAX_def)

section \<open>Properties of the sizes and of the constructors\<close>

lemma sizeof_VertexFP16: "sizeof VertexFP16_t = sizeof half_t * 4"
  by code_simp

lemma sizeof_Vertex: "sizeof Vertex_t = sizeof c_float * 4"
  by code_simp

text \<open>
  Claim C6. For every scene, if \<^verbatim>\<open>m_cfg.fp16\<close> is true then \<^verbatim>\<open>getVertexSize()\<close> returns
  \<^verbatim>\<open>sizeof(half) * 4\<close>, the size of \<^verbatim>\<open>VertexFP16\<close>, and if it is false it returns
  \<^verbatim>\<open>sizeof(float) * 4\<close>, the size of \<^verbatim>\<open>Vertex\<close>.
\<close>

theorem getVertexSize_precision:
  "(fp16 (m_cfg s) \<longrightarrow>
      getVertexSize s = sizeof half_t * 4 \<and> getVertexSize s = sizeof VertexFP16_t)
   \<and> (\<not> fp16 (m_cfg s) \<longrightarrow>
      getVertexSize s = sizeof c_float * 4 \<and> getVertexSize s = sizeof Vertex_t)"
  by (simp add: getVertexSize_def sizeof_VertexFP16 sizeof_Vertex)

theorem getVertexSize_precision_witness:
  "fp16 (m_cfg (CadScene_ctor 0 0 0\<lparr>m_cfg := LoadConfig_ctor\<lparr>fp16 := True\<rparr>\<rparr>))
   \<and> getVertexSize (CadScene_ctor 0 0 0\<lparr>m_cfg := LoadConfig_ctor\<lparr>fp16 := True\<rparr>\<rparr>) = 8
   \<and> \<not> fp16 (m_cfg (CadScene_ctor 0 0 0))
   \<and> getVertexSize (CadScene_ctor 0 0 0) = 16"
proof -
  have a: "fp16 (m_cfg (CadScene_ctor 0 0 0\<lparr>m_cfg := LoadConfig_ctor\<lparr>fp16 := True\<rparr>\<rparr>))"
    by simp
  have b: "\<not> fp16 (m_cfg (CadScene_ctor 0 0 0))"
    by (simp add: CadScene_ctor_def LoadConfig_ctor_def)
  have h: "sizeof half_t * 4 = 8" "sizeof c_float * 4 = 16"
    by (simp_all add: half_t_def)
  from getVertexSize_precision [of "CadScene_ctor 0 0 0\<lparr>m_cfg := LoadConfig_ctor\<lparr>fp16 := True\<rparr>\<rparr>"]
    getVertexSize_precision [of "CadScene_ctor 0 0 0"] a b h
  show ?thesis by simp
qed

text \<open>
  Claim C7. The size of \<^verbatim>\<open>Material\<close> and the size of \<^verbatim>\<open>MatrixNode\<close> are 256 bytes. The size
  is a function of the struct's declaration alone, so it is the same for every content of
  the fields, and it is a multiple of the 256 bytes of the uniform-buffer range alignment.
\<close>

theorem Material_MatrixNode_size:
  "sizeof Material_t = 256 \<and> sizeof MatrixNode_t = 256
   \<and> sizeof Material_t mod 256 = 0 \<and> sizeof MatrixNode_t mod 256 = 0"
proof -
  have "sizeof Material_t = 256" by code_simp
  moreover have "sizeof MatrixNode_t = 256" by code_simp
  ultimately show ?thesis by simp
qed

text \<open>
  Claim C10. A default-constructed \<^verbatim>\<open>DrawIndirectElements\<close> has \<^verbatim>\<open>count = 0\<close>,
  \<^verbatim>\<open>firstIndex = 0\<close>, \<^verbatim>\<open>baseVertex = 0\<close>, \<^verbatim>\<open>baseInstance = 0\<close> and \<^verbatim>\<open>primCount = 1\<close>: one
  instance of zero indices.
\<close>

theorem DrawIndirectElements_ctor_fields:
  "DrawIndirectElements.count DrawIndirectElements_ctor = 0
   \<and> firstIndex DrawIndirectElements_ctor = 0
   \<and> baseVertex DrawIndirectElements_ctor = 0
   \<and> sint (baseVertex DrawIndirectElements_ctor) = 0
   \<and> baseInstance DrawIndirectElements_ctor = 0
   \<and> primCount DrawIndirectElements_ctor = 1
   \<and> unat (primCount DrawIndirectElements_ctor) = 1
   \<and> unat (DrawIndirectElements.count DrawIndirectElements_ctor) = 0"
  by (simp add: DrawIndirectElements_ctor_def)

section \<open>Properties of the lifecycle\<close>

lemmas example_defs = example_collaborators_def example_source_def
  example_source_unbuildable_def example_source_dangling_def example_source_huge_def
  example_triangle_def example_object_def example_build_geometry_def

lemma length_concat_copies:
  "(\<And>c. length (f c) = k) \<Longrightarrow> length (concat (map f cs)) = length cs * k"
  by (induction cs) simp_all

lemma length_copies:
  "length (concat (map (\<lambda>c. if c = 0 then xs else map (g c) xs) cs)) = length cs * length xs"
  by (rule length_concat_copies) simp

lemma length_make_objects: "length (make_objects off obs) = length obs"
  by (induction obs arbitrary: off) simp_all

lemma build_geometries_grows:
  "build_geometries env cfg gs s = Inr s' \<Longrightarrow>
   length (m_geometry s') = length (m_geometry s) + length gs"
proof (induction gs arbitrary: s)
  case Nil
  then show ?case by simp
next
  case (Cons g gs)
  then show ?case
    by (auto simp: add_geometry_def split: sum.splits prod.splits)
qed

lemma add_instances_counts:
  "length (m_objects (add_instances env src clones ax s)) =
     Suc (num_clones clones) * length (csf_objects src)"
  "length (m_matrices (add_instances env src clones ax s)) =
     Suc (num_clones clones) * length (csf_transforms src)"
  "m_numOrigObjects (add_instances env src clones ax s) = length (csf_objects src)"
  "m_numOrigMatrices (add_instances env src clones ax s) = length (csf_transforms src)"
  "m_numOrigGeometries (add_instances env src clones ax s) = length (m_geometry s)"
  "m_geometry (add_instances env src clones ax s) = m_geometry s"
  by (simp_all add: add_instances_def Let_def length_copies length_make_objects del: upt_Suc)

lemma loadCSF_success:
  assumes "loadCSF env s filename cfg clones ax = Some (True, s')"
  obtains src s1 where "read_source env filename = Inr src"
    and "build_geometries env cfg (csf_geometries src)
           (s\<lparr>m_cfg := cfg, m_materials := csf_materials src\<rparr>) = Inr s1"
    and "s' = add_instances env src clones ax s1"
  using assms
  by (auto simp: loadCSF_def load_stages_def split: if_splits sum.splits prod.splits)

lemma is_Empty_unload: "is_Empty (unload s)"
  by (simp add: is_Empty_def containers_empty_def counts_zero_def unload_def)

lemma example_read_source:
  "read_source example_collaborators ''triangle.csf'' = Inr example_source"
  by (simp add: example_collaborators_def)

lemma example_build:
  "\<exists>s1. build_geometries example_collaborators LoadConfig_ctor (csf_geometries example_source)
            (CadScene_ctor 7 7 7\<lparr>m_cfg := LoadConfig_ctor,
                                  m_materials := csf_materials example_source\<rparr>) = Inr s1
        \<and> length (m_geometry s1) = 1
        \<and> list_all (object_ok s1 (length (csf_transforms example_source)))
            (csf_objects example_source)"
  by (simp add: example_defs CadScene_ctor_def LoadConfig_ctor_def add_geometry_def Let_def
      object_ok_def)

lemma example_load_succeeds:
  "\<exists>s1. loadCSF example_collaborators (CadScene_ctor 7 7 7) ''triangle.csf'' LoadConfig_ctor clones 0
           = Some (True, add_instances example_collaborators example_source clones 0 s1)
        \<and> length (m_geometry s1) = 1"
proof -
  from example_build obtain s1 where
    b: "build_geometries example_collaborators LoadConfig_ctor (csf_geometries example_source)
            (CadScene_ctor 7 7 7\<lparr>m_cfg := LoadConfig_ctor,
                                  m_materials := csf_materials example_source\<rparr>) = Inr s1"
    and g: "length (m_geometry s1) = 1"
    and ok: "list_all (object_ok s1 (length (csf_transforms example_source)))
               (csf_objects example_source)"
    by blast
  have c: "containers_empty (CadScene_ctor 7 7 7)"
    by (simp add: containers_empty_def CadScene_ctor_def)
  have "loadCSF example_collaborators (CadScene_ctor 7 7 7) ''triangle.csf'' LoadConfig_ctor clones 0
          = Some (True, add_instances example_collaborators example_source clones 0 s1)"
    by (simp add: loadCSF_def load_stages_def c example_read_source b ok)
  with g show ?thesis by blast
qed

lemma build_geometries_error:
  "g \<in> set gs \<Longrightarrow> build_geometry env cfg g = Inl e \<Longrightarrow>
   \<exists>e' partial. build_geometries env cfg gs s = Inl (e', partial)"
proof (induction gs arbitrary: s)
  case Nil
  then show ?case by simp
next
  case (Cons a gs)
  show ?case
  proof (cases "build_geometry env cfg a")
    case (Inl e')
    then show ?thesis by simp
  next
    case (Inr r)
    with Cons.prems have "g \<in> set gs"
      by auto
    with Cons.IH Cons.prems(2) Inr show ?thesis
      by (cases r) simp
  qed
qed

lemma loadCSF_stages_error:
  "containers_empty s \<Longrightarrow>
   load_stages env (s\<lparr>m_cfg := cfg\<rparr>) filename clones ax = Inl (e, partial) \<Longrightarrow>
   loadCSF env s filename cfg clones ax = Some (False, unload partial)"
  by (simp add: loadCSF_def)

lemma example_huge_overflows: "build_geometry example_collaborators LoadConfig_ctor
          (example_triangle\<lparr>csf_indices := replicate (2 ^ 32) 0, csf_partition := [2 ^ 32]\<rparr>)
       = Inl IndexOverflow"
  by (simp add: example_collaborators_def example_build_geometry_def Let_def)

lemma example_big_unallocated: "build_geometry example_collaborators LoadConfig_ctor
          (example_triangle\<lparr>csf_indices := [0, 1, 2, 0, 1, 2, 0, 1, 2], csf_partition := [9]\<rparr>)
       = Inl AllocationFailure"
  by (simp add: example_collaborators_def example_build_geometry_def Let_def example_triangle_def
      LoadConfig_ctor_def)

lemma example_dangling_invalid:
  "\<exists>s1. build_geometries example_collaborators LoadConfig_ctor (csf_geometries example_source_dangling)
            (CadScene_ctor 7 7 7\<lparr>m_cfg := LoadConfig_ctor,
                                  m_materials := csf_materials example_source_dangling\<rparr>) = Inr s1
        \<and> length (m_geometry s1) = 1
        \<and> \<not> list_all (object_ok s1 (length (csf_transforms example_source_dangling)))
              (csf_objects example_source_dangling)"
  by (simp add: example_defs CadScene_ctor_def LoadConfig_ctor_def add_geometry_def Let_def
      object_ok_def)


lemma example_containers_empty: "containers_empty (CadScene_ctor 7 7 7)"
  by (simp add: containers_empty_def CadScene_ctor_def)

text \<open>
  Claim C3. Every failure during a load aborts the load and leaves the scene in the state
  \<^verbatim>\<open>Empty\<close>. On a scene that may be loaded (its containers are empty): if the reader
  returns an error (source unreadable, parse failure), or the builder returns an error for
  any geometry of the source (index overflow, allocation failure), or an object of the source
  fails validation, then \<^verbatim>\<open>loadCSF\<close> returns failure and the scene is empty. Whenever
  \<^verbatim>\<open>loadCSF\<close> returns failure, every container is empty and every size and count field is
  zero, however far the load had come. And a load that returns success met no error: the
  source was read, every geometry was built and every object passed validation.
\<close>

theorem loadCSF_failure_rolls_back:
  "(\<forall>e. containers_empty s \<and> read_source env filename = Inl e \<longrightarrow>
        (\<exists>s'. loadCSF env s filename cfg clones ax = Some (False, s') \<and> is_Empty s'))
   \<and> (\<forall>src g e. containers_empty s \<and> read_source env filename = Inr src
          \<and> g \<in> set (csf_geometries src) \<and> build_geometry env cfg g = Inl e \<longrightarrow>
        (\<exists>s'. loadCSF env s filename cfg clones ax = Some (False, s') \<and> is_Empty s'))
   \<and> (\<forall>src s1. containers_empty s \<and> read_source env filename = Inr src
          \<and> build_geometries env cfg (csf_geometries src)
               (s\<lparr>m_cfg := cfg, m_materials := csf_materials src\<rparr>) = Inr s1
          \<and> \<not> list_all (object_ok s1 (length (csf_transforms src))) (csf_objects src) \<longrightarrow>
        (\<exists>s'. loadCSF env s filename cfg clones ax = Some (False, s') \<and> is_Empty s'))
   \<and> (\<forall>s'. loadCSF env s filename cfg clones ax = Some (False, s') \<longrightarrow>
         m_materials s' = [] \<and> m_bboxes s' = [] \<and> m_geometry s' = [] \<and> m_matrices s' = []
         \<and> m_objects s' = [] \<and> m_vboSize s' = 0 \<and> m_iboSize s' = 0 \<and> m_meshSize s' = 0
         \<and> m_numGeometryParts s' = 0 \<and> m_numObjectParts s' = 0 \<and> m_numOrigGeometries s' = 0
         \<and> m_numOrigMatrices s' = 0 \<and> m_numOrigObjects s' = 0 \<and> is_Empty s')
   \<and> (\<forall>s'. loadCSF env s filename cfg clones ax = Some (True, s') \<longrightarrow>
         (\<exists>src s1. read_source env filename = Inr src
            \<and> (\<forall>g \<in> set (csf_geometries src). \<exists>r. build_geometry env cfg g = Inr r)
            \<and> build_geometries env cfg (csf_geometries src)
                 (s\<lparr>m_cfg := cfg, m_materials := csf_materials src\<rparr>) = Inr s1
            \<and> list_all (object_ok s1 (length (csf_transforms src))) (csf_objects src)))"
proof -
  have reader: "\<forall>e. containers_empty s \<and> read_source env filename = Inl e \<longrightarrow>
        (\<exists>s'. loadCSF env s filename cfg clones ax = Some (False, s') \<and> is_Empty s')"
  proof (intro allI impI)
    fix e
    assume a: "containers_empty s \<and> read_source env filename = Inl e"
    then have "load_stages env (s\<lparr>m_cfg := cfg\<rparr>) filename clones ax = Inl (e, s\<lparr>m_cfg := cfg\<rparr>)"
      by (simp add: load_stages_def)
    with a have "loadCSF env s filename cfg clones ax = Some (False, unload (s\<lparr>m_cfg := cfg\<rparr>))"
      by (simp add: loadCSF_stages_error)
    then show "\<exists>s'. loadCSF env s filename cfg clones ax = Some (False, s') \<and> is_Empty s'"
      using is_Empty_unload by blast
  qed
  have builder: "\<forall>src g e. containers_empty s \<and> read_source env filename = Inr src
          \<and> g \<in> set (csf_geometries src) \<and> build_geometry env cfg g = Inl e \<longrightarrow>
        (\<exists>s'. loadCSF env s filename cfg clones ax = Some (False, s') \<and> is_Empty s')"
  proof (intro allI impI)
    fix src g e
    assume a: "containers_empty s \<and> read_source env filename = Inr src
          \<and> g \<in> set (csf_geometries src) \<and> build_geometry env cfg g = Inl e"
    then obtain e' partial where
      "build_geometries env cfg (csf_geometries src)
         (s\<lparr>m_cfg := cfg, m_materials := csf_materials src\<rparr>) = Inl (e', partial)"
      using build_geometries_error by blast
    with a have "load_stages env (s\<lparr>m_cfg := cfg\<rparr>) filename clones ax = Inl (e', partial)"
      by (simp add: load_stages_def)
    with a have "loadCSF env s filename cfg clones ax = Some (False, unload partial)"
      by (simp add: loadCSF_stages_error)
    then show "\<exists>s'. loadCSF env s filename cfg clones ax = Some (False, s') \<and> is_Empty s'"
      using is_Empty_unload by blast
  qed
  have validation: "\<forall>src s1. containers_empty s \<and> read_source env filename = Inr src
          \<and> build_geometries env cfg (csf_geometries src)
               (s\<lparr>m_cfg := cfg, m_materials := csf_materials src\<rparr>) = Inr s1
          \<and> \<not> list_all (object_ok s1 (length (csf_transforms src))) (csf_objects src) \<longrightarrow>
        (\<exists>s'. loadCSF env s filename cfg clones ax = Some (False, s') \<and> is_Empty s')"
  proof (intro allI impI)
    fix src s1
    assume a: "containers_empty s \<and> read_source env filename = Inr src
          \<and> build_geometries env cfg (csf_geometries src)
               (s\<lparr>m_cfg := cfg, m_materials := csf_materials src\<rparr>) = Inr s1
          \<and> \<not> list_all (object_ok s1 (length (csf_transforms src))) (csf_objects src)"
    then have "load_stages env (s\<lparr>m_cfg := cfg\<rparr>) filename clones ax = Inl (SourceMalformed, s1)"
      by (simp add: load_stages_def)
    with a have "loadCSF env s filename cfg clones ax = Some (False, unload s1)"
      by (simp add: loadCSF_stages_error)
    then show "\<exists>s'. loadCSF env s filename cfg clones ax = Some (False, s') \<and> is_Empty s'"
      using is_Empty_unload by blast
  qed
  have rollback: "\<forall>s'. loadCSF env s filename cfg clones ax = Some (False, s') \<longrightarrow>
         m_materials s' = [] \<and> m_bboxes s' = [] \<and> m_geometry s' = [] \<and> m_matrices s' = []
         \<and> m_objects s' = [] \<and> m_vboSize s' = 0 \<and> m_iboSize s' = 0 \<and> m_meshSize s' = 0
         \<and> m_numGeometryParts s' = 0 \<and> m_numObjectParts s' = 0 \<and> m_numOrigGeometries s' = 0
         \<and> m_numOrigMatrices s' = 0 \<and> m_numOrigObjects s' = 0 \<and> is_Empty s'"
  proof (rule allI, rule impI)
    fix s'
    assume "loadCSF env s filename cfg clones ax = Some (False, s')"
    then obtain partial where "s' = unload partial"
      by (auto simp: loadCSF_def split: if_splits sum.splits prod.splits)
    then show "m_materials s' = [] \<and> m_bboxes s' = [] \<and> m_geometry s' = [] \<and> m_matrices s' = []
         \<and> m_objects s' = [] \<and> m_vboSize s' = 0 \<and> m_iboSize s' = 0 \<and> m_meshSize s' = 0
         \<and> m_numGeometryParts s' = 0 \<and> m_numObjectParts s' = 0 \<and> m_numOrigGeometries s' = 0
         \<and> m_numOrigMatrices s' = 0 \<and> m_numOrigObjects s' = 0 \<and> is_Empty s'"
      using is_Empty_unload [of partial]
      by (simp add: is_Empty_def containers_empty_def counts_zero_def)
  qed
  have success: "\<forall>s'. loadCSF env s filename cfg clones ax = Some (True, s') \<longrightarrow>
         (\<exists>src s1. read_source env filename = Inr src
            \<and> (\<forall>g \<in> set (csf_geometries src). \<exists>r. build_geometry env cfg g = Inr r)
            \<and> build_geometries env cfg (csf_geometries src)
                 (s\<lparr>m_cfg := cfg, m_materials := csf_materials src\<rparr>) = Inr s1
            \<and> list_all (object_ok s1 (length (csf_transforms src))) (csf_objects src))"
  proof (rule allI, rule impI)
    fix s'
    assume t: "loadCSF env s filename cfg clones ax = Some (True, s')"
    then obtain src s1 where r: "read_source env filename = Inr src"
      and b: "build_geometries env cfg (csf_geometries src)
                (s\<lparr>m_cfg := cfg, m_materials := csf_materials src\<rparr>) = Inr s1"
      and ok: "list_all (object_ok s1 (length (csf_transforms src))) (csf_objects src)"
      by (auto simp: loadCSF_def load_stages_def split: if_splits sum.splits prod.splits)
    have "\<exists>r. build_geometry env cfg g = Inr r" if "g \<in> set (csf_geometries src)" for g
    proof (cases "build_geometry env cfg g")
      case (Inl e)
      from build_geometries_error [OF that Inl] obtain e' partial where
        "build_geometries env cfg (csf_geometries src)
           (s\<lparr>m_cfg := cfg, m_materials := csf_materials src\<rparr>) = Inl (e', partial)"
        by blast
      with b show ?thesis by simp
    next
      case (Inr r)
      then show ?thesis by blast
    qed
    with r b ok show "\<exists>src s1. read_source env filename = Inr src
            \<and> (\<forall>g \<in> set (csf_geometries src). \<exists>r. build_geometry env cfg g = Inr r)
            \<and> build_geometries env cfg (csf_geometries src)
                 (s\<lparr>m_cfg := cfg, m_materials := csf_materials src\<rparr>) = Inr s1
            \<and> list_all (object_ok s1 (length (csf_transforms src))) (csf_objects src)"
      by blast
  qed
  show ?thesis
    by (rule conjI [OF reader conjI [OF builder conjI [OF validation conjI [OF rollback success]]]])
qed

text \<open>The five ways to fail on the example collaborators: a missing file, a file that does
  not parse, a geometry of \<open>2^32\<close> indices, a second geometry that cannot be allocated when
  the first is already in the scene, and an object that names a geometry the source does not
  have. Each call returns failure and leaves the scene empty.\<close>

theorem loadCSF_failure_rolls_back_witness:
  "containers_empty (CadScene_ctor 7 7 7)
   \<and> read_source example_collaborators ''missing.csf'' = Inl SourceUnreadable
   \<and> (\<exists>s'. loadCSF example_collaborators (CadScene_ctor 7 7 7) ''missing.csf'' LoadConfig_ctor 0 3
              = Some (False, s') \<and> is_Empty s')
   \<and> read_source example_collaborators ''broken.csf'' = Inl SourceMalformed
   \<and> (\<exists>s'. loadCSF example_collaborators (CadScene_ctor 7 7 7) ''broken.csf'' LoadConfig_ctor 0 3
              = Some (False, s') \<and> is_Empty s')
   \<and> build_geometry example_collaborators LoadConfig_ctor
        (example_triangle\<lparr>csf_indices := replicate (2 ^ 32) 0, csf_partition := [2 ^ 32]\<rparr>)
       = Inl IndexOverflow
   \<and> (\<exists>s'. loadCSF example_collaborators (CadScene_ctor 7 7 7) ''huge.csf'' LoadConfig_ctor 0 3
              = Some (False, s') \<and> is_Empty s')
   \<and> build_geometry example_collaborators LoadConfig_ctor
        (example_triangle\<lparr>csf_indices := [0, 1, 2, 0, 1, 2, 0, 1, 2], csf_partition := [9]\<rparr>)
       = Inl AllocationFailure
   \<and> (\<exists>partial. load_stages example_collaborators (CadScene_ctor 7 7 7\<lparr>m_cfg := LoadConfig_ctor\<rparr>)
                   ''big.csf'' 0 3 = Inl (AllocationFailure, partial)
          \<and> length (m_geometry partial) = 1)
   \<and> (\<exists>s'. loadCSF example_collaborators (CadScene_ctor 7 7 7) ''big.csf'' LoadConfig_ctor 0 3
              = Some (False, s') \<and> is_Empty s' \<and> m_geometry s' = [] \<and> m_materials s' = []
            \<and> m_vboSize s' = 0)
   \<and> (\<exists>s'. loadCSF example_collaborators (CadScene_ctor 7 7 7) ''dangling.csf'' LoadConfig_ctor 0 3
              = Some (False, s') \<and> is_Empty s')"
proof -
  let ?S = "CadScene_ctor 7 7 7"
  note c = example_containers_empty
  have reader: "containers_empty ?S \<and> read_source example_collaborators name = Inl e \<longrightarrow>
      (\<exists>s'. loadCSF example_collaborators ?S name LoadConfig_ctor 0 3 = Some (False, s')
            \<and> is_Empty s')" for name e
    using loadCSF_failure_rolls_back
      [where s = ?S and env = example_collaborators and filename = name
         and cfg = LoadConfig_ctor and clones = 0 and ax = 3, THEN conjunct1]
    by (rule spec)
  have builder: "containers_empty ?S \<and> read_source example_collaborators name = Inr src
        \<and> g \<in> set (csf_geometries src)
        \<and> build_geometry example_collaborators LoadConfig_ctor g = Inl e \<longrightarrow>
      (\<exists>s'. loadCSF example_collaborators ?S name LoadConfig_ctor 0 3 = Some (False, s')
            \<and> is_Empty s')" for name src g e
    using loadCSF_failure_rolls_back
      [where s = ?S and env = example_collaborators and filename = name
         and cfg = LoadConfig_ctor and clones = 0 and ax = 3, THEN conjunct2, THEN conjunct1]
    by blast
  have validation: "containers_empty ?S \<and> read_source example_collaborators name = Inr src
        \<and> build_geometries example_collaborators LoadConfig_ctor (csf_geometries src)
             (?S\<lparr>m_cfg := LoadConfig_ctor, m_materials := csf_materials src\<rparr>) = Inr s1
        \<and> \<not> list_all (object_ok s1 (length (csf_transforms src))) (csf_objects src) \<longrightarrow>
      (\<exists>s'. loadCSF example_collaborators ?S name LoadConfig_ctor 0 3 = Some (False, s')
            \<and> is_Empty s')" for name src s1
    using loadCSF_failure_rolls_back
      [where s = ?S and env = example_collaborators and filename = name
         and cfg = LoadConfig_ctor and clones = 0 and ax = 3,
       THEN conjunct2, THEN conjunct2, THEN conjunct1]
    by blast
  have rollback: "loadCSF example_collaborators ?S name LoadConfig_ctor 0 3 = Some (False, s') \<longrightarrow>
      m_geometry s' = [] \<and> m_materials s' = [] \<and> m_vboSize s' = 0" for name s'
    using loadCSF_failure_rolls_back
      [where s = ?S and env = example_collaborators and filename = name
         and cfg = LoadConfig_ctor and clones = 0 and ax = 3,
       THEN conjunct2, THEN conjunct2, THEN conjunct2, THEN conjunct1]
    by blast
  have r1: "read_source example_collaborators ''missing.csf'' = Inl SourceUnreadable"
    and r2: "read_source example_collaborators ''broken.csf'' = Inl SourceMalformed"
    and r3: "read_source example_collaborators ''huge.csf'' = Inr example_source_huge"
    and r4: "read_source example_collaborators ''big.csf'' = Inr example_source_unbuildable"
    and r5: "read_source example_collaborators ''dangling.csf'' = Inr example_source_dangling"
    by (simp_all add: example_collaborators_def)
  have g3: "example_triangle\<lparr>csf_indices := replicate (2 ^ 32) 0, csf_partition := [2 ^ 32]\<rparr>
              \<in> set (csf_geometries example_source_huge)"
    by (simp add: example_source_huge_def)
  have g4: "example_triangle\<lparr>csf_indices := [0, 1, 2, 0, 1, 2, 0, 1, 2], csf_partition := [9]\<rparr>
              \<in> set (csf_geometries example_source_unbuildable)"
    by (simp add: example_source_unbuildable_def)
  have p: "\<exists>partial. load_stages example_collaborators (?S\<lparr>m_cfg := LoadConfig_ctor\<rparr>)
                ''big.csf'' 0 3 = Inl (AllocationFailure, partial)
           \<and> length (m_geometry partial) = 1"
    by (simp add: load_stages_def example_defs CadScene_ctor_def LoadConfig_ctor_def
        add_geometry_def Let_def)
  have m1: "\<exists>s'. loadCSF example_collaborators ?S ''missing.csf'' LoadConfig_ctor 0 3
              = Some (False, s') \<and> is_Empty s'"
    using reader c r1 by blast
  have m2: "\<exists>s'. loadCSF example_collaborators ?S ''broken.csf'' LoadConfig_ctor 0 3
              = Some (False, s') \<and> is_Empty s'"
    using reader c r2 by blast
  have m3: "\<exists>s'. loadCSF example_collaborators ?S ''huge.csf'' LoadConfig_ctor 0 3
              = Some (False, s') \<and> is_Empty s'"
    using builder c r3 g3 example_huge_overflows by blast
  have "\<exists>s'. loadCSF example_collaborators ?S ''big.csf'' LoadConfig_ctor 0 3
              = Some (False, s') \<and> is_Empty s'"
    using builder c r4 g4 example_big_unallocated by blast
  then have m4: "\<exists>s'. loadCSF example_collaborators ?S ''big.csf'' LoadConfig_ctor 0 3
              = Some (False, s') \<and> is_Empty s' \<and> m_geometry s' = [] \<and> m_materials s' = []
            \<and> m_vboSize s' = 0"
    using rollback by blast
  have m5: "\<exists>s'. loadCSF example_collaborators ?S ''dangling.csf'' LoadConfig_ctor 0 3
              = Some (False, s') \<and> is_Empty s'"
    using validation c r5 example_dangling_invalid by blast
  from c r1 m1 r2 m2 example_huge_overflows m3 example_big_unallocated p m4 m5 show ?thesis
    by (intro conjI)
qed

text \<open>
  Claim C4. For every successful \<^verbatim>\<open>loadCSF\<close> call with \<^verbatim>\<open>clones = N\<close>, \<open>N\<close> a number of clones
  (\<open>N \<ge> 0\<close>), the scene afterwards holds exactly \<open>(N+1) * m_numOrigObjects\<close> objects and
  \<open>(N+1) * m_numOrigMatrices\<close> matrices, while \<^verbatim>\<open>m_geometry.size()\<close> equals
  \<^verbatim>\<open>m_numOrigGeometries\<close>. Such calls exist: on a scene that may be loaded, when the source is
  read, every geometry is built and every object passes validation, the call succeeds, and
  the original counts are the numbers of objects, transforms and geometries of the source.
\<close>

theorem loadCSF_clone_counts:
  "(\<forall>s'. loadCSF env s filename cfg clones ax = Some (True, s') \<and> 0 \<le> clones \<longrightarrow>
        int (length (m_objects s')) = (clones + 1) * int (m_numOrigObjects s')
      \<and> int (length (m_matrices s')) = (clones + 1) * int (m_numOrigMatrices s')
      \<and> length (m_geometry s') = m_numOrigGeometries s')
   \<and> (\<forall>src s1. containers_empty s \<and> read_source env filename = Inr src
          \<and> build_geometries env cfg (csf_geometries src)
               (s\<lparr>m_cfg := cfg, m_materials := csf_materials src\<rparr>) = Inr s1
          \<and> list_all (object_ok s1 (length (csf_transforms src))) (csf_objects src)
          \<and> 0 \<le> clones \<longrightarrow>
        (\<exists>s'. loadCSF env s filename cfg clones ax = Some (True, s')
           \<and> m_numOrigObjects s' = length (csf_objects src)
           \<and> m_numOrigMatrices s' = length (csf_transforms src)
           \<and> m_numOrigGeometries s' = length (csf_geometries src)
           \<and> int (length (m_objects s')) = (clones + 1) * int (length (csf_objects src))
           \<and> int (length (m_matrices s')) = (clones + 1) * int (length (csf_transforms src))
           \<and> length (m_geometry s') = length (csf_geometries src)))"
proof -
  have counts: "int (length (m_objects (add_instances env src clones ax s1)))
                   = (clones + 1) * int (length (csf_objects src))
      \<and> int (length (m_matrices (add_instances env src clones ax s1)))
                   = (clones + 1) * int (length (csf_transforms src))"
    if "0 \<le> clones" for src s1
  proof -
    from that have n: "int (Suc (num_clones clones)) = clones + 1"
      by (simp add: num_clones_def)
    show ?thesis
      unfolding add_instances_counts of_nat_mult n by simp
  qed
  have first: "\<forall>s'. loadCSF env s filename cfg clones ax = Some (True, s') \<and> 0 \<le> clones \<longrightarrow>
        int (length (m_objects s')) = (clones + 1) * int (m_numOrigObjects s')
      \<and> int (length (m_matrices s')) = (clones + 1) * int (m_numOrigMatrices s')
      \<and> length (m_geometry s') = m_numOrigGeometries s'"
  proof (rule allI, rule impI)
    fix s'
    assume a: "loadCSF env s filename cfg clones ax = Some (True, s') \<and> 0 \<le> clones"
    then obtain src s1 where s': "s' = add_instances env src clones ax s1"
      using loadCSF_success by blast
    from a counts [of src s1]
    show "int (length (m_objects s')) = (clones + 1) * int (m_numOrigObjects s')
      \<and> int (length (m_matrices s')) = (clones + 1) * int (m_numOrigMatrices s')
      \<and> length (m_geometry s') = m_numOrigGeometries s'"
      unfolding s' by (simp add: add_instances_counts)
  qed
  have second: "\<forall>src s1. containers_empty s \<and> read_source env filename = Inr src
          \<and> build_geometries env cfg (csf_geometries src)
               (s\<lparr>m_cfg := cfg, m_materials := csf_materials src\<rparr>) = Inr s1
          \<and> list_all (object_ok s1 (length (csf_transforms src))) (csf_objects src)
          \<and> 0 \<le> clones \<longrightarrow>
        (\<exists>s'. loadCSF env s filename cfg clones ax = Some (True, s')
           \<and> m_numOrigObjects s' = length (csf_objects src)
           \<and> m_numOrigMatrices s' = length (csf_transforms src)
           \<and> m_numOrigGeometries s' = length (csf_geometries src)
           \<and> int (length (m_objects s')) = (clones + 1) * int (length (csf_objects src))
           \<and> int (length (m_matrices s')) = (clones + 1) * int (length (csf_transforms src))
           \<and> length (m_geometry s') = length (csf_geometries src))"
  proof (intro allI, rule impI)
    fix src s1
    assume a: "containers_empty s \<and> read_source env filename = Inr src
          \<and> build_geometries env cfg (csf_geometries src)
               (s\<lparr>m_cfg := cfg, m_materials := csf_materials src\<rparr>) = Inr s1
          \<and> list_all (object_ok s1 (length (csf_transforms src))) (csf_objects src)
          \<and> 0 \<le> clones"
    then have l: "loadCSF env s filename cfg clones ax
                    = Some (True, add_instances env src clones ax s1)"
      by (simp add: loadCSF_def load_stages_def)
    from a have "length (m_geometry s1) = length (csf_geometries src)"
      using build_geometries_grows [of env cfg "csf_geometries src"
          "s\<lparr>m_cfg := cfg, m_materials := csf_materials src\<rparr>" s1]
      by (simp add: containers_empty_def)
    with a counts [of src s1] l
    show "\<exists>s'. loadCSF env s filename cfg clones ax = Some (True, s')
           \<and> m_numOrigObjects s' = length (csf_objects src)
           \<and> m_numOrigMatrices s' = length (csf_transforms src)
           \<and> m_numOrigGeometries s' = length (csf_geometries src)
           \<and> int (length (m_objects s')) = (clones + 1) * int (length (csf_objects src))
           \<and> int (length (m_matrices s')) = (clones + 1) * int (length (csf_transforms src))
           \<and> length (m_geometry s') = length (csf_geometries src)"
      by (simp add: add_instances_counts)
  qed
  from first second show ?thesis
    by (rule conjI)
qed

text \<open>The triangle with two clones: three objects, three matrices, one geometry.\<close>

theorem loadCSF_clone_counts_witness:
  "\<exists>s'. loadCSF example_collaborators (CadScene_ctor 7 7 7) ''triangle.csf'' LoadConfig_ctor 2 0
           = Some (True, s')
      \<and> (0::int) \<le> 2
      \<and> m_numOrigObjects s' = 1 \<and> m_numOrigMatrices s' = 1 \<and> m_numOrigGeometries s' = 1
      \<and> length (m_objects s') = 3 \<and> length (m_matrices s') = 3 \<and> length (m_geometry s') = 1
      \<and> int (length (m_objects s')) = (2 + 1) * int (m_numOrigObjects s')
      \<and> int (length (m_matrices s')) = (2 + 1) * int (m_numOrigMatrices s')
      \<and> length (m_geometry s') = m_numOrigGeometries s'"
proof -
  from example_build obtain s1 where
    b: "build_geometries example_collaborators LoadConfig_ctor (csf_geometries example_source)
            (CadScene_ctor 7 7 7\<lparr>m_cfg := LoadConfig_ctor,
                                  m_materials := csf_materials example_source\<rparr>) = Inr s1"
    and ok: "list_all (object_ok s1 (length (csf_transforms example_source)))
               (csf_objects example_source)"
    by blast
  have n: "length (csf_objects example_source) = 1" "length (csf_transforms example_source) = 1"
    "length (csf_geometries example_source) = 1"
    by (simp_all add: example_source_def)
  from loadCSF_clone_counts
    [where s = "CadScene_ctor 7 7 7" and env = example_collaborators
       and filename = "''triangle.csf''" and cfg = LoadConfig_ctor and clones = 2 and ax = 0,
     THEN conjunct2, THEN spec, THEN spec, of example_source s1]
    example_containers_empty example_read_source b ok
  obtain s' where
    "loadCSF example_collaborators (CadScene_ctor 7 7 7) ''triangle.csf'' LoadConfig_ctor 2 0
           = Some (True, s')"
    "m_numOrigObjects s' = length (csf_objects example_source)"
    "m_numOrigMatrices s' = length (csf_transforms example_source)"
    "m_numOrigGeometries s' = length (csf_geometries example_source)"
    "int (length (m_objects s')) = (2 + 1) * int (length (csf_objects example_source))"
    "int (length (m_matrices s')) = (2 + 1) * int (length (csf_transforms example_source))"
    "length (m_geometry s') = length (csf_geometries example_source)"
    by auto
  then show ?thesis
    unfolding n by (intro exI [of _ s']) simp
qed

text \<open>
  Claim C9. \<^verbatim>\<open>unload()\<close> is idempotent and safe on an empty scene: for every scene, unloading
  twice gives the state that unloading once gives; after \<^verbatim>\<open>unload()\<close> every container is empty
  and every size and count field is zero; and on a scene that is already empty it changes
  nothing.
\<close>

theorem unload_idempotent:
  "unload (unload s) = unload s
   \<and> m_materials (unload s) = [] \<and> m_bboxes (unload s) = [] \<and> m_geometry (unload s) = []
   \<and> m_matrices (unload s) = [] \<and> m_objects (unload s) = []
   \<and> m_vboSize (unload s) = 0 \<and> m_iboSize (unload s) = 0 \<and> m_meshSize (unload s) = 0
   \<and> m_numGeometryParts (unload s) = 0 \<and> m_numObjectParts (unload s) = 0
   \<and> m_numOrigGeometries (unload s) = 0 \<and> m_numOrigMatrices (unload s) = 0
   \<and> m_numOrigObjects (unload s) = 0
   \<and> (is_Empty s \<longrightarrow> unload s = s)"
  by (simp add: unload_def is_Empty_def containers_empty_def counts_zero_def)

text \<open>An empty scene, and the scene of the triangle with its two clones.\<close>

theorem unload_idempotent_witness:
  "is_Empty (CadScene_ctor 0 0 0) \<and> unload (CadScene_ctor 0 0 0) = CadScene_ctor 0 0 0
   \<and> (\<exists>s'. loadCSF example_collaborators (CadScene_ctor 7 7 7) ''triangle.csf'' LoadConfig_ctor 2 0
              = Some (True, s')
         \<and> length (m_objects s') = 3 \<and> unload (unload s') = unload s'
         \<and> m_objects (unload s') = [])"
proof -
  have a: "is_Empty (CadScene_ctor 0 0 0)"
    by (simp add: is_Empty_def containers_empty_def counts_zero_def CadScene_ctor_def)
  from example_load_succeeds [of 2] obtain s1 where
    e: "loadCSF example_collaborators (CadScene_ctor 7 7 7) ''triangle.csf'' LoadConfig_ctor 2 0
          = Some (True, add_instances example_collaborators example_source 2 0 s1)"
    by blast
  have l: "length (m_objects (add_instances example_collaborators example_source 2 0 s1)) = 3"
    by (simp add: add_instances_counts) (simp add: example_source_def num_clones_def)
  from a e l unload_idempotent [of "CadScene_ctor 0 0 0"]
    unload_idempotent [of "add_instances example_collaborators example_source 2 0 s1"]
  show ?thesis
    by auto
qed

end
